theory Spec2Isabelle
  imports Complex_Main "HOL-Library.AList"
begin

section \<open>Types and values as Go's reflection presents them\<close>

text \<open>
  \<^verbatim>\<open>convert.go\<close> works on \<^verbatim>\<open>interface{}\<close> values and \<^verbatim>\<open>reflect.Type\<close> descriptors.
  The kinds are those of \<^verbatim>\<open>reflect.Kind\<close> that the conversion rules distinguish
  (\<^verbatim>\<open>reflect.Int\<close> is written \<open>IntK\<close>, since \<open>Int\<close> is set intersection in HOL).
  Arrays, channels, functions, complex numbers, \<^verbatim>\<open>uintptr\<close> and unsafe pointers are
  outside the embedding.

  A type descriptor is a term: predeclared types (\<open>Basic\<close>), the unnamed composite
  types, and defined types (\<open>Named\<close>, a name and the underlying type). Equality of
  terms is Go's type identity (\<^verbatim>\<open>==\<close> on \<^verbatim>\<open>reflect.Type\<close>): a defined type is
  identical only to itself, unnamed composite types are identical when their
  components are.

  A Go type may refer to itself (\<^verbatim>\<open>type T []T\<close>, \<^verbatim>\<open>type M map[string]M\<close>), and its
  descriptor then points back to itself: \<^verbatim>\<open>T.Elem()\<close> is \<^verbatim>\<open>T\<close>. The terms are therefore
  those of a codatatype, finite or not.
\<close>

datatype kind =
    Bool | IntK | Int8 | Int16 | Int32 | Int64
  | Uint | Uint8 | Uint16 | Uint32 | Uint64
  | Float32 | Float64
  | Interface | Map | Ptr | Slice | String | Struct

codatatype gtype =
    Basic kind
  | SliceOf gtype
  | MapOf gtype gtype
  | PtrTo gtype
  | StructOf "(string \<times> gtype) list"
  | InterfaceOf "string list"
  | Named string gtype

text \<open>
  The underlying type of a defined type is never a defined type (that of \<^verbatim>\<open>type B A\<close>
  is the underlying type of \<^verbatim>\<open>A\<close>), so \<open>Named\<close> is applied to a term of the other six
  forms. On a \<open>Named\<close> directly under a \<open>Named\<close>, which is no type of Go, the functions
  below give what they give on \<^verbatim>\<open>type n struct{}\<close>.
\<close>

fun underlying :: "gtype \<Rightarrow> gtype" where
  "underlying (Named n (Named m w)) = StructOf []"
| "underlying (Named n u) = u"
| "underlying t = t"

fun Kind :: "gtype \<Rightarrow> kind" where
  "Kind (Basic k) = k"
| "Kind (SliceOf e) = Slice"
| "Kind (MapOf k e) = Map"
| "Kind (PtrTo e) = Ptr"
| "Kind (StructOf fs) = Struct"
| "Kind (InterfaceOf ms) = Interface"
| "Kind (Named n (Basic k)) = k"
| "Kind (Named n (SliceOf e)) = Slice"
| "Kind (Named n (MapOf k e)) = Map"
| "Kind (Named n (PtrTo e)) = Ptr"
| "Kind (Named n (StructOf fs)) = Struct"
| "Kind (Named n (InterfaceOf ms)) = Interface"
| "Kind (Named n (Named m w)) = Struct"

text \<open>\<^verbatim>\<open>Type.Elem()\<close> and \<^verbatim>\<open>Type.Key()\<close> panic on a type that has none: \<open>None\<close>.\<close>

fun Elem :: "gtype \<Rightarrow> gtype option" where
  "Elem (SliceOf e) = Some e"
| "Elem (MapOf k e) = Some e"
| "Elem (PtrTo e) = Some e"
| "Elem (Named n (SliceOf e)) = Some e"
| "Elem (Named n (MapOf k e)) = Some e"
| "Elem (Named n (PtrTo e)) = Some e"
| "Elem t = None"

fun Key :: "gtype \<Rightarrow> gtype option" where
  "Key (MapOf k e) = Some k"
| "Key (Named n (MapOf k e)) = Some k"
| "Key t = None"

text \<open>The groups of kinds that the \<^verbatim>\<open>switch\<close> statements of \<^verbatim>\<open>Convert\<close> list.\<close>

definition isInt :: "kind \<Rightarrow> bool" where
  "isInt k = (k = IntK \<or> k = Int8 \<or> k = Int16 \<or> k = Int32 \<or> k = Int64)"

definition isUint :: "kind \<Rightarrow> bool" where
  "isUint k = (k = Uint \<or> k = Uint8 \<or> k = Uint16 \<or> k = Uint32 \<or> k = Uint64)"

definition isFloat :: "kind \<Rightarrow> bool" where
  "isFloat k = (k = Float32 \<or> k = Float64)"

text \<open>
  \<^verbatim>\<open>int(Type.Size())*8\<close> for the numeric kinds, on a 64-bit platform (the test suite
  expects \<^verbatim>\<open>uint(0xffffffffffffffff)\<close> from \<^verbatim>\<open>int(-1)\<close>). The function is only called
  on numeric kinds.
\<close>

fun bitSize :: "kind \<Rightarrow> nat" where
  "bitSize Int8 = 8"
| "bitSize Uint8 = 8"
| "bitSize Int16 = 16"
| "bitSize Uint16 = 16"
| "bitSize Int32 = 32"
| "bitSize Uint32 = 32"
| "bitSize Float32 = 32"
| "bitSize k = 64"

text \<open>
  An \<^verbatim>\<open>interface{}\<close> value is \<^verbatim>\<open>nil\<close> or a dynamic value with its exact type. Signed
  integers carry an \<open>int\<close>, unsigned ones a \<open>nat\<close>, each within the range of its kind
  (\<open>fits\<close> below). A floating-point value carries the rational number it denotes; NaN and
  the infinities are outside the embedding, and everything Go's library computes on
  floats is a parameter (\<open>env\<close> below). A slice carries its elements, a map its entries
  in the order \<^verbatim>\<open>MapRange\<close> visits them, a pointer its address (\<open>0\<close> is the nil pointer).
  Elements, keys and fields are themselves dynamic values: \<^verbatim>\<open>Value.Interface()\<close> on an
  element of interface type returns what the interface holds.

  A slice or a map is a reference, and may be reached from its own elements
  (\<^verbatim>\<open>s[0] = s\<close> for an \<^verbatim>\<open>s\<close> of type \<^verbatim>\<open>[]interface{}\<close>), so that going from a value to
  its elements need not end. \<^verbatim>\<open>Convert\<close> only reads its source, so a value is the tree,
  finite or not, of what can be read from it: a term of a codatatype.
\<close>

codatatype val =
    VNil
  | VBool gtype bool
  | VInt gtype int
  | VUint gtype nat
  | VFloat gtype rat
  | VString gtype string
  | VSlice gtype "val list"
  | VMap gtype "(val \<times> val) list"
  | VStruct gtype "val list"
  | VPtr gtype nat

text \<open>\<^verbatim>\<open>reflect.TypeOf\<close>: \<^verbatim>\<open>nil\<close> for the nil interface value.\<close>

fun TypeOf :: "val \<Rightarrow> gtype option" where
  "TypeOf VNil = None"
| "TypeOf (VBool t b) = Some t"
| "TypeOf (VInt t i) = Some t"
| "TypeOf (VUint t u) = Some t"
| "TypeOf (VFloat t f) = Some t"
| "TypeOf (VString t s) = Some t"
| "TypeOf (VSlice t xs) = Some t"
| "TypeOf (VMap t kvs) = Some t"
| "TypeOf (VStruct t fs) = Some t"
| "TypeOf (VPtr t a) = Some t"

section \<open>Errors and results\<close>

text \<open>
  The three sentinel errors of the package, \<^verbatim>\<open>*strconv.NumError\<close> (function, input,
  cause), and any other error value a converter may return. Go compares errors by
  identity: an error with the text of a sentinel is still a different error.
\<close>

datatype num_err = ErrSyntax | ErrRange

datatype error =
    ErrExpectedPointer
  | ErrIncompatibleType
  | ErrNoConversionAvailable
  | NumError string string num_err
  | OtherError string

text \<open>A call returns a value, returns an error, or panics.\<close>

datatype 'a result = Ok 'a | Err error | Panic

text \<open>
  \<^verbatim>\<open>ConverterFunc\<close>: \<open>Ok v\<close> is \<^verbatim>\<open>(v, nil)\<close>, \<open>Err e\<close> is a non-nil error, and a
  converter may panic. A converter that does not return is outside the embedding.
\<close>

type_synonym ConverterFunc = "val \<Rightarrow> gtype \<Rightarrow> val result"

text \<open>
  What \<^verbatim>\<open>Convert\<close> takes from outside the package: the method sets of the program's
  types with the bodies of \<^verbatim>\<open>ConvertTo\<close> and \<^verbatim>\<open>String\<close>, and the functions of Go's
  library on floating-point numbers and UTF-8 (\<^verbatim>\<open>strconv.FormatFloat(x, 'g', 6, bits)\<close>,
  the number and the cause of failure of \<^verbatim>\<open>strconv.ParseFloat(s, bits)\<close>, rounding to
  \<^verbatim>\<open>float64\<close> and to \<^verbatim>\<open>float32\<close>, decoding a string into runes and encoding runes into
  a string).
\<close>

record env =
  methods :: "gtype \<Rightarrow> string list"
  ConvertTo_method :: "val \<Rightarrow> gtype \<Rightarrow> val result"
  String_method :: "val \<Rightarrow> string"
  FormatFloat :: "rat \<Rightarrow> nat \<Rightarrow> string"
  parseFloat :: "string \<Rightarrow> nat \<Rightarrow> rat \<times> num_err option"
  float64_of :: "rat \<Rightarrow> rat"
  float32_of :: "rat \<Rightarrow> rat"
  runes_of :: "string \<Rightarrow> int list"
  string_of_runes :: "int list \<Rightarrow> string"

text \<open>
  \<^verbatim>\<open>Type.Implements\<close> and the type assertions \<^verbatim>\<open>source.(ConverterTo)\<close>,
  \<^verbatim>\<open>source.(fmt.Stringer)\<close>: the method set of the dynamic type includes the methods of
  the interface. A nil interface value satisfies no assertion.
\<close>

definition implements :: "env \<Rightarrow> gtype \<Rightarrow> gtype \<Rightarrow> bool" where
  "implements E T I =
     (case underlying I of
        InterfaceOf ms \<Rightarrow> set ms \<subseteq> set (methods E T)
      | _ \<Rightarrow> False)"

definition ConverterTo :: gtype where
  "ConverterTo = Named ''elastic.ConverterTo'' (InterfaceOf [''ConvertTo''])"

definition Stringer :: gtype where
  "Stringer = Named ''fmt.Stringer'' (InterfaceOf [''String''])"

definition asserts :: "env \<Rightarrow> val \<Rightarrow> gtype \<Rightarrow> bool" where
  "asserts E source I =
     (case TypeOf source of None \<Rightarrow> False | Some T \<Rightarrow> implements E T I)"

section \<open>Conversion by reflection: \<^verbatim>\<open>Type.ConvertibleTo\<close> and \<^verbatim>\<open>Value.Convert\<close>\<close>

text \<open>
  \<^verbatim>\<open>convert.go\<close> calls \<^verbatim>\<open>reflect.TypeOf(source).ConvertibleTo(targetType)\<close> and
  \<^verbatim>\<open>reflect.ValueOf(source).Convert(targetType).Interface()\<close>. Both follow
  \<^verbatim>\<open>reflect.convertOp\<close>, which picks the conversion from the two kinds first, then from
  the underlying types, then from the method sets.
\<close>

datatype cvtOp =
    cvtInt | cvtUint | cvtFloatInt | cvtFloatUint | cvtIntFloat | cvtUintFloat | cvtFloat
  | cvtIntString | cvtUintString | cvtStringBytes | cvtStringRunes | cvtBytesString
  | cvtRunesString | cvtDirect | cvtT2I

definition compositeKind :: "kind \<Rightarrow> bool" where
  "compositeKind k = (k = Interface \<or> k = Map \<or> k = Ptr \<or> k = Slice \<or> k = Struct)"

text \<open>
  \<^verbatim>\<open>haveIdenticalUnderlyingType(T, V, false)\<close>. Types of one non-composite kind have the
  same underlying type. Two different interface types count only when both are empty.
  For the other composite kinds Go compares the components by type identity, which is
  equality of the underlying terms here (struct tags are not part of the embedding).
\<close>

definition haveIdenticalUnderlyingType :: "gtype \<Rightarrow> gtype \<Rightarrow> bool" where
  "haveIdenticalUnderlyingType T V =
     (if T = V then True
      else if Kind T \<noteq> Kind V then False
      else if \<not> compositeKind (Kind T) then True
      else if Kind T = Interface
        then underlying T = InterfaceOf [] \<and> underlying V = InterfaceOf []
      else underlying T = underlying V)"

text \<open>The \<^verbatim>\<open>switch\<close> on the source kind at the head of \<^verbatim>\<open>convertOp\<close>.\<close>

definition kindOp :: "gtype \<Rightarrow> gtype \<Rightarrow> cvtOp option" where
  "kindOp dst src =
     (if isInt (Kind src) then
        (if isInt (Kind dst) \<or> isUint (Kind dst) then Some cvtInt
         else if isFloat (Kind dst) then Some cvtIntFloat
         else if Kind dst = String then Some cvtIntString
         else None)
      else if isUint (Kind src) then
        (if isInt (Kind dst) \<or> isUint (Kind dst) then Some cvtUint
         else if isFloat (Kind dst) then Some cvtUintFloat
         else if Kind dst = String then Some cvtUintString
         else None)
      else if isFloat (Kind src) then
        (if isInt (Kind dst) then Some cvtFloatInt
         else if isUint (Kind dst) then Some cvtFloatUint
         else if isFloat (Kind dst) then Some cvtFloat
         else None)
      else if Kind src = String then
        (if Kind dst = Slice \<and> Elem dst = Some (Basic Uint8) then Some cvtStringBytes
         else if Kind dst = Slice \<and> Elem dst = Some (Basic Int32) then Some cvtStringRunes
         else None)
      else if Kind src = Slice then
        (if Kind dst = String \<and> Elem src = Some (Basic Uint8) then Some cvtBytesString
         else if Kind dst = String \<and> Elem src = Some (Basic Int32) then Some cvtRunesString
         else None)
      else None)"

text \<open>
  After the switch: identical underlying types, two unnamed pointer types whose base
  types have identical underlying types, and a target interface that the source type
  implements. The dynamic type of a value is never an interface type, so the
  interface-to-interface conversion does not arise.
\<close>

definition unnamedPointers :: "gtype \<Rightarrow> gtype \<Rightarrow> bool" where
  "unnamedPointers dst src =
     (case (dst, src) of
        (PtrTo d, PtrTo s) \<Rightarrow> haveIdenticalUnderlyingType d s
      | _ \<Rightarrow> False)"

definition convertOp :: "env \<Rightarrow> gtype \<Rightarrow> gtype \<Rightarrow> cvtOp option" where
  "convertOp E dst src =
     (case kindOp dst src of
        Some op \<Rightarrow> Some op
      | None \<Rightarrow>
          if haveIdenticalUnderlyingType dst src then Some cvtDirect
          else if unnamedPointers dst src then Some cvtDirect
          else if implements E src dst then Some cvtT2I
          else None)"

definition ConvertibleTo :: "env \<Rightarrow> gtype \<Rightarrow> gtype \<Rightarrow> bool" where
  "ConvertibleTo E src dst = (convertOp E dst src \<noteq> None)"

text \<open>
  \<^verbatim>\<open>makeInt(bits, t)\<close> stores the low bytes of a \<^verbatim>\<open>uint64\<close> in a value of type \<open>t\<close>;
  read back, they are an unsigned number or a two's-complement one, by the kind of \<open>t\<close>.
\<close>

definition signed :: "nat \<Rightarrow> nat \<Rightarrow> int" where
  "signed w u =
     (let m = u mod 2 ^ w in if m < 2 ^ (w - 1) then int m else int m - 2 ^ w)"

definition makeInt :: "nat \<Rightarrow> gtype \<Rightarrow> val" where
  "makeInt bits t =
     (if isUint (Kind t) then VUint t (bits mod 2 ^ bitSize (Kind t))
      else VInt t (signed (bitSize (Kind t)) bits))"

definition makeFloat :: "env \<Rightarrow> rat \<Rightarrow> gtype \<Rightarrow> val" where
  "makeFloat E f t = VFloat t (if Kind t = Float32 then float32_of E f else f)"

text \<open>
  Go's conversion of a float to an integer drops the fraction; outside the range of
  \<^verbatim>\<open>int64\<close> (or \<^verbatim>\<open>uint64\<close>) its result depends on the platform, and the embedding
  takes the low 64 bits.
\<close>

definition trunc :: "rat \<Rightarrow> int" where
  "trunc f = (if 0 \<le> f then \<lfloor>f\<rfloor> else \<lceil>f\<rceil>)"

definition uint64 :: "int \<Rightarrow> nat" where
  "uint64 i = nat (i mod 2 ^ 64)"

text \<open>\<^verbatim>\<open>cvtDirect\<close>: the same data under the target type.\<close>

fun retype :: "gtype \<Rightarrow> val \<Rightarrow> val" where
  "retype t VNil = VNil"
| "retype t (VBool s b) = VBool t b"
| "retype t (VInt s i) = VInt t i"
| "retype t (VUint s u) = VUint t u"
| "retype t (VFloat s f) = VFloat t f"
| "retype t (VString s x) = VString t x"
| "retype t (VSlice s xs) = VSlice t xs"
| "retype t (VMap s kvs) = VMap t kvs"
| "retype t (VStruct s fs) = VStruct t fs"
| "retype t (VPtr s a) = VPtr t a"

fun bytes_of :: "val list \<Rightarrow> string option" where
  "bytes_of [] = Some []"
| "bytes_of (VUint t u # xs) = map_option ((#) (char_of u)) (bytes_of xs)"
| "bytes_of (x # xs) = None"

fun runes_of_vals :: "val list \<Rightarrow> int list option" where
  "runes_of_vals [] = Some []"
| "runes_of_vals (VInt t i # xs) = map_option ((#) i) (runes_of_vals xs)"
| "runes_of_vals (x # xs) = None"

text \<open>
  The conversions themselves. \<open>None\<close> is a panic of the \<^verbatim>\<open>reflect\<close> package; it arises
  only for a value whose data do not fit the kind of its type, which no Go value is.
  \<^verbatim>\<open>cvtT2I\<close> wraps the value in the target interface and \<^verbatim>\<open>Value.Interface()\<close> unwraps
  it again: the result is the source value, with its own dynamic type.
\<close>

definition applyOp :: "env \<Rightarrow> cvtOp \<Rightarrow> val \<Rightarrow> gtype \<Rightarrow> val option" where
  "applyOp E op v t =
     (case op of
        cvtInt \<Rightarrow> (case v of VInt s i \<Rightarrow> Some (makeInt (uint64 i) t) | _ \<Rightarrow> None)
      | cvtUint \<Rightarrow> (case v of VUint s u \<Rightarrow> Some (makeInt u t) | _ \<Rightarrow> None)
      | cvtFloatInt \<Rightarrow>
          (case v of VFloat s f \<Rightarrow> Some (makeInt (uint64 (trunc f)) t) | _ \<Rightarrow> None)
      | cvtFloatUint \<Rightarrow>
          (case v of VFloat s f \<Rightarrow> Some (makeInt (uint64 (trunc f)) t) | _ \<Rightarrow> None)
      | cvtIntFloat \<Rightarrow>
          (case v of
             VInt s i \<Rightarrow> Some (makeFloat E (float64_of E (of_int i)) t)
           | _ \<Rightarrow> None)
      | cvtUintFloat \<Rightarrow>
          (case v of
             VUint s u \<Rightarrow> Some (makeFloat E (float64_of E (of_nat u)) t)
           | _ \<Rightarrow> None)
      | cvtFloat \<Rightarrow>
          (case v of
             VFloat s f \<Rightarrow>
               if Kind s = Float32 \<and> Kind t = Float32 then Some (VFloat t f)
               else Some (makeFloat E f t)
           | _ \<Rightarrow> None)
      | cvtIntString \<Rightarrow>
          (case v of
             VInt s i \<Rightarrow>
               Some (VString t (string_of_runes E
                 [if - (2 ^ 31) \<le> i \<and> i < 2 ^ 31 then i else 65533]))
           | _ \<Rightarrow> None)
      | cvtUintString \<Rightarrow>
          (case v of
             VUint s u \<Rightarrow>
               Some (VString t (string_of_runes E [if u < 2 ^ 31 then int u else 65533]))
           | _ \<Rightarrow> None)
      | cvtStringBytes \<Rightarrow>
          (case v of
             VString s x \<Rightarrow> Some (VSlice t (map (\<lambda>c. VUint (Basic Uint8) (of_char c)) x))
           | _ \<Rightarrow> None)
      | cvtStringRunes \<Rightarrow>
          (case v of
             VString s x \<Rightarrow> Some (VSlice t (map (VInt (Basic Int32)) (runes_of E x)))
           | _ \<Rightarrow> None)
      | cvtBytesString \<Rightarrow>
          (case v of VSlice s xs \<Rightarrow> map_option (VString t) (bytes_of xs) | _ \<Rightarrow> None)
      | cvtRunesString \<Rightarrow>
          (case v of
             VSlice s xs \<Rightarrow>
               map_option (\<lambda>rs. VString t (string_of_runes E rs)) (runes_of_vals xs)
           | _ \<Rightarrow> None)
      | cvtDirect \<Rightarrow> (case v of VNil \<Rightarrow> None | _ \<Rightarrow> Some (retype t v))
      | cvtT2I \<Rightarrow> (case v of VNil \<Rightarrow> None | _ \<Rightarrow> Some v))"

definition Value_Convert :: "env \<Rightarrow> val \<Rightarrow> gtype \<Rightarrow> val option" where
  "Value_Convert E v t =
     (case TypeOf v of
        None \<Rightarrow> None
      | Some s \<Rightarrow>
          (case convertOp E t s of
             None \<Rightarrow> None
           | Some op \<Rightarrow> applyOp E op v t))"

text \<open>\<^verbatim>\<open>kind2Exact\<close>: a conversion that cannot be made panics.\<close>

definition kind2Exact :: "env \<Rightarrow> val \<Rightarrow> gtype \<Rightarrow> val result" where
  "kind2Exact E source targetType =
     (case Value_Convert E source targetType of None \<Rightarrow> Panic | Some r \<Rightarrow> Ok r)"

section \<open>The functions of \<^verbatim>\<open>strconv\<close> on booleans and integers\<close>

text \<open>
  A parsing function returns its value together with \<^verbatim>\<open>nil\<close> (\<open>None\<close>) or an error,
  as in Go. \<^verbatim>\<open>Convert\<close> always passes base 10.
\<close>

definition FormatBool :: "bool \<Rightarrow> string" where
  "FormatBool b = (if b then ''true'' else ''false'')"

definition ParseBool :: "string \<Rightarrow> bool \<times> error option" where
  "ParseBool str =
     (if str \<in> set [''1'', ''t'', ''T'', ''true'', ''TRUE'', ''True''] then (True, None)
      else if str \<in> set [''0'', ''f'', ''F'', ''false'', ''FALSE'', ''False''] then (False, None)
      else (False, Some (NumError ''ParseBool'' str ErrSyntax)))"

text \<open>The decimal digits of a number, most significant first, in front of \<open>a\<close>.\<close>

function formatBits :: "nat \<Rightarrow> string \<Rightarrow> string" where
  "formatBits u a =
     (if u < 10 then char_of (48 + u) # a
      else formatBits (u div 10) (char_of (48 + u mod 10) # a))"
  by pat_completeness auto
termination
  by (relation "measure fst") auto

definition FormatUint :: "nat \<Rightarrow> string" where
  "FormatUint u = formatBits u []"

definition FormatInt :: "int \<Rightarrow> string" where
  "FormatInt i = (if i < 0 then CHR ''-'' # formatBits (nat (- i)) [] else formatBits (nat i) [])"

text \<open>
  The loop of \<^verbatim>\<open>ParseUint\<close> over the bytes of the string, for base 10: \<open>n\<close> is the
  \<^verbatim>\<open>uint64\<close> read so far, \<open>cutoff\<close> the least number whose tenfold exceeds
  \<^verbatim>\<open>1<<64 - 1\<close>. Any byte that is not a decimal digit is a syntax error (a letter is a
  digit of a larger base, an underscore is accepted only with base 0).
\<close>

definition cutoff :: nat where
  "cutoff = (2 ^ 64 - 1) div 10 + 1"

fun parseDigits :: "nat \<Rightarrow> nat \<Rightarrow> string \<Rightarrow> num_err + nat" where
  "parseDigits maxVal n [] = Inr n"
| "parseDigits maxVal n (c # cs) =
     (if 48 \<le> (of_char c :: nat) \<and> (of_char c :: nat) \<le> 57 then
        (let d = (of_char c :: nat) - 48 in
         if n \<ge> cutoff then Inl ErrRange
         else
           (let n10 = (n * 10) mod 2 ^ 64; n1 = (n10 + d) mod 2 ^ 64 in
            if n1 < n10 \<or> n1 > maxVal then Inl ErrRange
            else parseDigits maxVal n1 cs))
      else Inl ErrSyntax)"

definition ParseUint :: "string \<Rightarrow> nat \<Rightarrow> nat \<times> error option" where
  "ParseUint s bits =
     (if s = [] then (0, Some (NumError ''ParseUint'' s ErrSyntax))
      else
        (case parseDigits (2 ^ bits - 1) 0 s of
           Inl ErrSyntax \<Rightarrow> (0, Some (NumError ''ParseUint'' s ErrSyntax))
         | Inl ErrRange \<Rightarrow> (2 ^ bits - 1, Some (NumError ''ParseUint'' s ErrRange))
         | Inr n \<Rightarrow> (n, None)))"

text \<open>
  \<^verbatim>\<open>ParseInt\<close> takes the sign off, parses the rest as unsigned and checks the range of
  the signed type. A range error of \<^verbatim>\<open>ParseUint\<close> comes with the largest unsigned value,
  which fails the range check again.
\<close>

definition ParseInt :: "string \<Rightarrow> nat \<Rightarrow> int \<times> error option" where
  "ParseInt s0 bits =
     (if s0 = [] then (0, Some (NumError ''ParseInt'' s0 ErrSyntax))
      else
        (let neg = (hd s0 = CHR ''-'');
             s = (if hd s0 = CHR ''+'' \<or> hd s0 = CHR ''-'' then tl s0 else s0);
             (un, err) = ParseUint s bits
         in
           if err \<noteq> None \<and> err \<noteq> Some (NumError ''ParseUint'' s ErrRange)
             then (0, Some (NumError ''ParseInt'' s0 ErrSyntax))
           else
             (let cut = (2::nat) ^ (bits - 1) in
              if \<not> neg \<and> un \<ge> cut then (int cut - 1, Some (NumError ''ParseInt'' s0 ErrRange))
              else if neg \<and> un > cut then (- int cut, Some (NumError ''ParseInt'' s0 ErrRange))
              else (if neg then - int un else int un, None))))"

text \<open>\<^verbatim>\<open>ParseFloat\<close> reports a failure as a \<^verbatim>\<open>*NumError\<close>, like the other parsers.\<close>

definition ParseFloat :: "env \<Rightarrow> string \<Rightarrow> nat \<Rightarrow> rat \<times> error option" where
  "ParseFloat E s bits =
     (case parseFloat E s bits of
        (f, None) \<Rightarrow> (f, None)
      | (f, Some cause) \<Rightarrow> (f, Some (NumError ''ParseFloat'' s cause)))"

section \<open>The converter engine\<close>

text \<open>
  The registries are Go maps from \<^verbatim>\<open>reflect.Type\<close> to slices of converters. A lookup of
  a missing key gives the nil slice (\<open>[]\<close>); the key may be the nil type, which is what
  \<^verbatim>\<open>reflect.TypeOf\<close> gives for a nil source. \<^verbatim>\<open>Convert\<close> ranges over the third
  registry: it is the list of its entries, in the order the range statement visits
  them. Go leaves that order open, and every theorem below holds for every order.
\<close>

record ConverterEngine =
  sourceConverters :: "gtype option \<Rightarrow> ConverterFunc list"
  targetConverters :: "gtype option \<Rightarrow> ConverterFunc list"
  interfaceConverters :: "(gtype \<times> ConverterFunc list) list"

definition New :: ConverterEngine where
  "New = \<lparr>sourceConverters = (\<lambda>t. []), targetConverters = (\<lambda>t. []),
           interfaceConverters = []\<rparr>"

definition AddSourceConverter ::
  "ConverterEngine \<Rightarrow> gtype option \<Rightarrow> ConverterFunc \<Rightarrow> ConverterEngine" where
  "AddSourceConverter ce sourceType f =
     ce\<lparr>sourceConverters := (sourceConverters ce)(sourceType := sourceConverters ce sourceType @ [f])\<rparr>"

definition AddTargetConverter ::
  "ConverterEngine \<Rightarrow> gtype option \<Rightarrow> ConverterFunc \<Rightarrow> ConverterEngine" where
  "AddTargetConverter ce targetType f =
     ce\<lparr>targetConverters := (targetConverters ce)(targetType := targetConverters ce targetType @ [f])\<rparr>"

text \<open>\<^verbatim>\<open>AddInterfaceConverter\<close> panics (\<open>None\<close>) unless the type is an interface type.\<close>

definition AddInterfaceConverter ::
  "ConverterEngine \<Rightarrow> gtype \<Rightarrow> ConverterFunc \<Rightarrow> ConverterEngine option" where
  "AddInterfaceConverter ce interfaceType f =
     (if Kind interfaceType \<noteq> Interface then None
      else
        (let cf = (case map_of (interfaceConverters ce) interfaceType of
                     None \<Rightarrow> [] | Some fs \<Rightarrow> fs)
         in Some (ce\<lparr>interfaceConverters :=
                    AList.update interfaceType (cf @ [f]) (interfaceConverters ce)\<rparr>)))"

section \<open>\<^verbatim>\<open>Convert\<close>\<close>

text \<open>
  \<^verbatim>\<open>Convert\<close> calls itself on what a converter returns, so it need not return: the
  embedding counts the depth of the calls, and \<open>None\<close> is "deeper than the fuel allows".
  Each step of the chain is a function that takes what follows it (\<open>next\<close>) and the
  recursive call (\<open>recur\<close>), in the order of the source.
\<close>

type_synonym call = "val \<Rightarrow> gtype \<Rightarrow> val result option"

text \<open>
  The loop over a list of converters (lines 123-131 and 147-155): the first converter
  without an error decides, the sentinel moves on, any other error is returned.
\<close>

fun tryConverters ::
  "call \<Rightarrow> ConverterFunc list \<Rightarrow> val \<Rightarrow> gtype \<Rightarrow> val result option \<Rightarrow> val result option" where
  "tryConverters recur [] source targetType next = next"
| "tryConverters recur (converter # converters) source targetType next =
     (case converter source targetType of
        Ok r \<Rightarrow> recur r targetType
      | Err err \<Rightarrow>
          if err \<noteq> ErrNoConversionAvailable then Some (Err err)
          else tryConverters recur converters source targetType next
      | Panic \<Rightarrow> Some Panic)"

text \<open>Lines 134-143: the source implements \<^verbatim>\<open>ConverterTo\<close>.\<close>

definition tryConverterTo ::
  "env \<Rightarrow> call \<Rightarrow> val \<Rightarrow> gtype \<Rightarrow> val result option \<Rightarrow> val result option" where
  "tryConverterTo E recur source targetType next =
     (if asserts E source ConverterTo then
        (case ConvertTo_method E source targetType of
           Ok r \<Rightarrow> recur r targetType
         | Err err \<Rightarrow> if err \<noteq> ErrNoConversionAvailable then Some (Err err) else next
         | Panic \<Rightarrow> Some Panic)
      else next)"

text \<open>
  Lines 158-170. \<^verbatim>\<open>sourceType.Implements(itype)\<close> is evaluated once per converter; it
  panics when \<^verbatim>\<open>sourceType\<close> is nil and when \<^verbatim>\<open>itype\<close> is not an interface type.
\<close>

definition Implements :: "env \<Rightarrow> gtype option \<Rightarrow> gtype \<Rightarrow> bool option" where
  "Implements E sourceType itype =
     (case sourceType of
        None \<Rightarrow> None
      | Some T \<Rightarrow> if Kind itype \<noteq> Interface then None else Some (implements E T itype))"

fun tryImplemented ::
  "env \<Rightarrow> call \<Rightarrow> gtype \<Rightarrow> ConverterFunc list \<Rightarrow> val \<Rightarrow> gtype \<Rightarrow> val result option
    \<Rightarrow> val result option" where
  "tryImplemented E recur itype [] source targetType next = next"
| "tryImplemented E recur itype (converter # converters) source targetType next =
     (case Implements E (TypeOf source) itype of
        None \<Rightarrow> Some Panic
      | Some True \<Rightarrow>
          (case converter source targetType of
             Ok r \<Rightarrow> recur r targetType
           | Err err \<Rightarrow>
               if err \<noteq> ErrNoConversionAvailable then Some (Err err)
               else tryImplemented E recur itype converters source targetType next
           | Panic \<Rightarrow> Some Panic)
      | Some False \<Rightarrow> tryImplemented E recur itype converters source targetType next)"

fun tryInterfaceConverters ::
  "env \<Rightarrow> call \<Rightarrow> (gtype \<times> ConverterFunc list) list \<Rightarrow> val \<Rightarrow> gtype \<Rightarrow> val result option
    \<Rightarrow> val result option" where
  "tryInterfaceConverters E recur [] source targetType next = next"
| "tryInterfaceConverters E recur ((itype, converters) # rest) source targetType next =
     tryImplemented E recur itype converters source targetType
       (tryInterfaceConverters E recur rest source targetType next)"

text \<open>
  Lines 175-192, inside \<^verbatim>\<open>if targetType.Kind() == reflect.String\<close>. With a nil source
  \<^verbatim>\<open>sourceType\<close> is the nil \<^verbatim>\<open>reflect.Type\<close>, and \<^verbatim>\<open>sourceType.Kind()\<close> is a call on a
  nil interface: a panic. \<^verbatim>\<open>S.Bool()\<close>, \<^verbatim>\<open>S.Int()\<close>, \<^verbatim>\<open>S.Uint()\<close> and \<^verbatim>\<open>S.Float()\<close>
  panic on a value of another kind.
\<close>

definition toString :: "env \<Rightarrow> val \<Rightarrow> gtype \<Rightarrow> val result option \<Rightarrow> val result option" where
  "toString E source targetType next =
     (if asserts E source Stringer
        then Some (kind2Exact E (VString (Basic String) (String_method E source)) targetType)
      else
        (case TypeOf source of
           None \<Rightarrow> Some Panic
         | Some sourceType \<Rightarrow>
             if Kind sourceType = Bool then
               (case source of
                  VBool t b \<Rightarrow>
                    Some (kind2Exact E (VString (Basic String) (FormatBool b)) targetType)
                | _ \<Rightarrow> Some Panic)
             else if isInt (Kind sourceType) then
               (case source of
                  VInt t i \<Rightarrow>
                    Some (kind2Exact E (VString (Basic String) (FormatInt i)) targetType)
                | _ \<Rightarrow> Some Panic)
             else if isUint (Kind sourceType) then
               (case source of
                  VUint t u \<Rightarrow>
                    Some (kind2Exact E (VString (Basic String) (FormatUint u)) targetType)
                | _ \<Rightarrow> Some Panic)
             else if isFloat (Kind sourceType) then
               (case source of
                  VFloat t f \<Rightarrow>
                    Some (kind2Exact E
                      (VString (Basic String) (FormatFloat E f (bitSize (Kind sourceType))))
                      targetType)
                | _ \<Rightarrow> Some Panic)
             else next))"

text \<open>
  Lines 194-222. The parsed value is a \<^verbatim>\<open>bool\<close>, \<^verbatim>\<open>int64\<close>, \<^verbatim>\<open>uint64\<close> or \<^verbatim>\<open>float64\<close>,
  which \<^verbatim>\<open>kind2Exact\<close> brings to the target type.
\<close>

definition fromString :: "env \<Rightarrow> val \<Rightarrow> gtype \<Rightarrow> val result option \<Rightarrow> val result option" where
  "fromString E source targetType next =
     (case TypeOf source of
        None \<Rightarrow> Some Panic
      | Some sourceType \<Rightarrow>
          if Kind sourceType = String then
            (case source of
               VString t s \<Rightarrow>
                 if Kind targetType = Bool then
                   (case ParseBool s of
                      (b, Some err) \<Rightarrow> Some (Err err)
                    | (b, None) \<Rightarrow> Some (kind2Exact E (VBool (Basic Bool) b) targetType))
                 else if isInt (Kind targetType) then
                   (case ParseInt s (bitSize (Kind targetType)) of
                      (i, Some err) \<Rightarrow> Some (Err err)
                    | (i, None) \<Rightarrow> Some (kind2Exact E (VInt (Basic Int64) i) targetType))
                 else if isUint (Kind targetType) then
                   (case ParseUint s (bitSize (Kind targetType)) of
                      (u, Some err) \<Rightarrow> Some (Err err)
                    | (u, None) \<Rightarrow> Some (kind2Exact E (VUint (Basic Uint64) u) targetType))
                 else if isFloat (Kind targetType) then
                   (case ParseFloat E s (bitSize (Kind targetType)) of
                      (f, Some err) \<Rightarrow> Some (Err err)
                    | (f, None) \<Rightarrow> Some (kind2Exact E (VFloat (Basic Float64) f) targetType))
                 else next
             | _ \<Rightarrow> Some Panic)
          else next)"

text \<open>
  \<^verbatim>\<open>Value.assignTo\<close>, which \<^verbatim>\<open>reflect.Append\<close>, \<^verbatim>\<open>Value.SetMapIndex\<close> and
  \<^verbatim>\<open>Value.Set\<close> apply to what they store: the type of the value is the target type,
  or one of the two is unnamed and they have identical underlying types, or the
  target is an interface the value implements; anything else panics, as does the zero
  \<^verbatim>\<open>Value\<close> that \<^verbatim>\<open>reflect.ValueOf(nil)\<close> is. What is stored in a place of a concrete
  type has that type; a place of interface type holds the value as it is.
\<close>

definition hasName :: "gtype \<Rightarrow> bool" where
  "hasName t = (case t of Named n u \<Rightarrow> True | Basic k \<Rightarrow> True | _ \<Rightarrow> False)"

definition directlyAssignable :: "gtype \<Rightarrow> gtype \<Rightarrow> bool" where
  "directlyAssignable T V =
     (if T = V then True
      else if (hasName T \<and> hasName V) \<or> Kind T \<noteq> Kind V then False
      else haveIdenticalUnderlyingType T V)"

definition assignTo :: "env \<Rightarrow> val \<Rightarrow> gtype \<Rightarrow> val option" where
  "assignTo E v T =
     (case TypeOf v of
        None \<Rightarrow> None
      | Some V \<Rightarrow>
          if directlyAssignable T V then Some (if Kind T = Interface then v else retype T v)
          else if implements E V T then Some v
          else None)"

text \<open>Lines 93-106. \<open>T\<close> is the slice built so far.\<close>

fun sliceLoop :: "env \<Rightarrow> call \<Rightarrow> val list \<Rightarrow> gtype \<Rightarrow> gtype \<Rightarrow> val list \<Rightarrow> val result option" where
  "sliceLoop E recur [] targetType targetElementType T = Some (Ok (VSlice targetType T))"
| "sliceLoop E recur (x # xs) targetType targetElementType T =
     (case recur x targetElementType of
        None \<Rightarrow> None
      | Some (Err err) \<Rightarrow> Some (Err err)
      | Some Panic \<Rightarrow> Some Panic
      | Some (Ok item) \<Rightarrow>
          (case assignTo E item targetElementType of
             None \<Rightarrow> Some Panic
           | Some y \<Rightarrow> sliceLoop E recur xs targetType targetElementType (T @ [y])))"

definition convertSlice :: "env \<Rightarrow> call \<Rightarrow> val \<Rightarrow> gtype \<Rightarrow> val result option" where
  "convertSlice E recur source targetType =
     (case source of
        VSlice t xs \<Rightarrow>
          (case Elem targetType of
             None \<Rightarrow> Some Panic
           | Some targetElementType \<Rightarrow> sliceLoop E recur xs targetType targetElementType [])
      | _ \<Rightarrow> Some Panic)"

text \<open>
  Lines 71-90. \<^verbatim>\<open>SetMapIndex\<close> panics on a key that cannot be hashed (a slice or a map
  held by an interface, directly or in a struct); with the zero \<^verbatim>\<open>Value\<close> as element
  it deletes the key. Keys are compared with Go's \<^verbatim>\<open>==\<close>, which is equality of the
  dynamic values.
\<close>

inductive hashable :: "val \<Rightarrow> bool" where
  "hashable VNil"
| "hashable (VBool t b)"
| "hashable (VInt t i)"
| "hashable (VUint t u)"
| "hashable (VFloat t f)"
| "hashable (VString t s)"
| "list_all hashable fs \<Longrightarrow> hashable (VStruct t fs)"
| "hashable (VPtr t a)"

code_pred hashable .

text \<open>
  As a function on the forms of a value: a slice or map is not hashable, a struct is
  when all its fields are, everything else is.
\<close>

inductive_simps hashable_simps [simp]:
  "hashable VNil" "hashable (VBool t b)" "hashable (VInt t i)" "hashable (VUint t u)"
  "hashable (VFloat t f)" "hashable (VString t s)" "hashable (VSlice t xs)"
  "hashable (VMap t kvs)" "hashable (VStruct t fs)" "hashable (VPtr t a)"

definition SetMapIndex ::
  "env \<Rightarrow> (val \<times> val) list \<Rightarrow> gtype \<Rightarrow> gtype \<Rightarrow> val \<Rightarrow> val \<Rightarrow> (val \<times> val) list option" where
  "SetMapIndex E T keyType elemType key elem =
     (case assignTo E key keyType of
        None \<Rightarrow> None
      | Some k \<Rightarrow>
          if \<not> hashable k then None
          else if elem = VNil then Some (AList.delete k T)
          else
            (case assignTo E elem elemType of
               None \<Rightarrow> None
             | Some e \<Rightarrow> Some (AList.update k e T)))"

fun mapLoop ::
  "env \<Rightarrow> call \<Rightarrow> (val \<times> val) list \<Rightarrow> gtype \<Rightarrow> gtype \<Rightarrow> gtype \<Rightarrow> (val \<times> val) list
    \<Rightarrow> val result option" where
  "mapLoop E recur [] targetType targetElementType keyType T = Some (Ok (VMap targetType T))"
| "mapLoop E recur ((k, v) # kvs) targetType targetElementType keyType T =
     (case recur v targetElementType of
        None \<Rightarrow> None
      | Some (Err err) \<Rightarrow> Some (Err err)
      | Some Panic \<Rightarrow> Some Panic
      | Some (Ok value) \<Rightarrow>
          (case recur k keyType of
             None \<Rightarrow> None
           | Some (Err err) \<Rightarrow> Some (Err err)
           | Some Panic \<Rightarrow> Some Panic
           | Some (Ok key) \<Rightarrow>
               (case SetMapIndex E T keyType targetElementType key value of
                  None \<Rightarrow> Some Panic
                | Some T' \<Rightarrow> mapLoop E recur kvs targetType targetElementType keyType T')))"

definition convertMap :: "env \<Rightarrow> call \<Rightarrow> val \<Rightarrow> gtype \<Rightarrow> val result option" where
  "convertMap E recur source targetType =
     (case source of
        VMap t kvs \<Rightarrow>
          (case (Elem targetType, Key targetType) of
             (Some targetElementType, Some keyType) \<Rightarrow>
               mapLoop E recur kvs targetType targetElementType keyType []
           | _ \<Rightarrow> Some Panic)
      | _ \<Rightarrow> Some Panic)"

text \<open>Lines 234-240: conversion by reflection, or the error.\<close>

definition convertReflect :: "env \<Rightarrow> val \<Rightarrow> gtype \<Rightarrow> val result" where
  "convertReflect E source targetType =
     (case TypeOf source of
        None \<Rightarrow> Panic
      | Some sourceType \<Rightarrow>
          if ConvertibleTo E sourceType targetType then
            (case Value_Convert E source targetType of None \<Rightarrow> Panic | Some r \<Rightarrow> Ok r)
          else Err ErrIncompatibleType)"

text \<open>Lines 172-240, the rules that are built in.\<close>

definition containers :: "env \<Rightarrow> call \<Rightarrow> val \<Rightarrow> gtype \<Rightarrow> val result option" where
  "containers E recur source targetType =
     (case TypeOf source of
        None \<Rightarrow> Some Panic
      | Some sourceType \<Rightarrow>
          if Kind sourceType = Slice \<and> Kind targetType = Slice
            then convertSlice E recur source targetType
          else if Kind sourceType = Map \<and> Kind targetType = Map
            then convertMap E recur source targetType
          else Some (convertReflect E source targetType))"

definition builtin :: "env \<Rightarrow> call \<Rightarrow> val \<Rightarrow> gtype \<Rightarrow> val result option" where
  "builtin E recur source targetType =
     (let parse = fromString E source targetType (containers E recur source targetType) in
      if Kind targetType = String then toString E source targetType parse else parse)"

text \<open>
  The body of \<^verbatim>\<open>Convert\<close> (lines 115-241) with the recursive call \<^verbatim>\<open>ce.Convert\<close> as
  \<open>recur\<close>. The target type is a type descriptor: the nil \<^verbatim>\<open>reflect.Type\<close> as target is
  outside the embedding.
\<close>

definition resolve :: "env \<Rightarrow> ConverterEngine \<Rightarrow> call \<Rightarrow> val \<Rightarrow> gtype \<Rightarrow> val result option" where
  "resolve E ce recur source targetType =
     (if TypeOf source = Some targetType then Some (Ok source)
      else
        tryConverters recur (sourceConverters ce (TypeOf source)) source targetType
       (tryConverterTo E recur source targetType
       (tryConverters recur (targetConverters ce (Some targetType)) source targetType
       (tryInterfaceConverters E recur (interfaceConverters ce) source targetType
       (builtin E recur source targetType)))))"

text \<open>\<^verbatim>\<open>Convert\<close> with \<open>n\<close> nested calls allowed.\<close>

primrec Convert :: "nat \<Rightarrow> env \<Rightarrow> ConverterEngine \<Rightarrow> val \<Rightarrow> gtype \<Rightarrow> val result option" where
  "Convert 0 E ce source targetType = None"
| "Convert (Suc n) E ce source targetType = resolve E ce (Convert n E ce) source targetType"

text \<open>
  The call returns \<open>r\<close>: at some depth, and then at every greater one
  (\<open>Convert_mono\<close> below).
\<close>

definition converts :: "env \<Rightarrow> ConverterEngine \<Rightarrow> val \<Rightarrow> gtype \<Rightarrow> val result \<Rightarrow> bool" where
  "converts E ce source targetType r = (\<exists>n. Convert n E ce source targetType = Some r)"

section \<open>\<^verbatim>\<open>Set\<close>\<close>

text \<open>
  \<^verbatim>\<open>Set\<close> (lines 245-258) writes through a pointer: the state is the store, from
  addresses to values. \<^verbatim>\<open>T.Elem()\<close> of a nil pointer is the zero \<^verbatim>\<open>Value\<close>, on which
  \<^verbatim>\<open>T.Type()\<close> panics.
\<close>

type_synonym store = "nat \<Rightarrow> val option"

definition Set ::
  "nat \<Rightarrow> env \<Rightarrow> ConverterEngine \<Rightarrow> store \<Rightarrow> val \<Rightarrow> val \<Rightarrow> (unit result \<times> store) option" where
  "Set n E ce h target source =
     (case TypeOf target of
        None \<Rightarrow> Some (Err ErrExpectedPointer, h)
      | Some tt \<Rightarrow>
          if Kind tt \<noteq> Ptr then Some (Err ErrExpectedPointer, h)
          else
            (case target of
               VPtr t a \<Rightarrow>
                 if a = 0 then Some (Panic, h)
                 else
                   (case Elem tt of
                      None \<Rightarrow> Some (Panic, h)
                    | Some elemType \<Rightarrow>
                        (case Convert n E ce source elemType of
                           None \<Rightarrow> None
                         | Some (Err err) \<Rightarrow> Some (Err err, h)
                         | Some Panic \<Rightarrow> Some (Panic, h)
                         | Some (Ok converted) \<Rightarrow>
                             (case assignTo E converted elemType of
                                None \<Rightarrow> Some (Panic, h)
                              | Some x \<Rightarrow> Some (Ok (), h(a \<mapsto> x)))))
             | _ \<Rightarrow> Some (Panic, h)))"

section \<open>Notions the properties are stated with\<close>

text \<open>
  A result that is there at one depth is there at every greater depth: \<open>opt_le\<close>
  orders results by "undefined or equal", \<open>call_le\<close> lifts it to calls.
\<close>

definition opt_le :: "'a option \<Rightarrow> 'a option \<Rightarrow> bool" where
  "opt_le a b = (\<forall>r. a = Some r \<longrightarrow> b = Some r)"

definition call_le :: "call \<Rightarrow> call \<Rightarrow> bool" where
  "call_le f g = (\<forall>x t. opt_le (f x t) (g x t))"

text \<open>
  The value has the type \<open>t\<close>, or \<open>t\<close> is an interface type that the type of the
  value implements.
\<close>

definition typed :: "env \<Rightarrow> val \<Rightarrow> gtype \<Rightarrow> bool" where
  "typed E v t =
     (case TypeOf v of
        None \<Rightarrow> False
      | Some T \<Rightarrow> T = t \<or> (Kind t = Interface \<and> implements E T t))"

definition okTyped :: "env \<Rightarrow> gtype \<Rightarrow> val result option \<Rightarrow> bool" where
  "okTyped E t ro = (\<forall>v. ro = Some (Ok v) \<longrightarrow> typed E v t)"

definition callTyped :: "env \<Rightarrow> call \<Rightarrow> bool" where
  "callTyped E f = (\<forall>x t. okTyped E t (f x t))"

text \<open>
  No custom strategy applies to the pair: every converter that \<^verbatim>\<open>Convert\<close> consults
  for it returns \<^verbatim>\<open>ErrNoConversionAvailable\<close>. These are the source converters of the
  source's type, \<^verbatim>\<open>ConvertTo\<close> if the source has it, the target converters of the
  target type, and the converters of the registered interfaces that the source's type
  implements.
\<close>

definition declines :: "ConverterFunc \<Rightarrow> val \<Rightarrow> gtype \<Rightarrow> bool" where
  "declines c source targetType = (c source targetType = Err ErrNoConversionAvailable)"

definition allDecline :: "ConverterFunc list \<Rightarrow> val \<Rightarrow> gtype \<Rightarrow> bool" where
  "allDecline cs source targetType = list_all (\<lambda>c. declines c source targetType) cs"

definition ifacesDecline ::
  "env \<Rightarrow> (gtype \<times> ConverterFunc list) list \<Rightarrow> val \<Rightarrow> gtype \<Rightarrow> bool" where
  "ifacesDecline E ics source targetType =
     list_all (\<lambda>(itype, cs). Kind itype = Interface \<and>
         (asserts E source itype \<longrightarrow> allDecline cs source targetType)) ics"

definition selfDeclines :: "env \<Rightarrow> val \<Rightarrow> gtype \<Rightarrow> bool" where
  "selfDeclines E source targetType =
     (asserts E source ConverterTo \<longrightarrow> declines (ConvertTo_method E) source targetType)"

definition noCustom :: "env \<Rightarrow> ConverterEngine \<Rightarrow> val \<Rightarrow> gtype \<Rightarrow> bool" where
  "noCustom E ce source targetType =
     (allDecline (sourceConverters ce (TypeOf source)) source targetType \<and>
      selfDeclines E source targetType \<and>
      allDecline (targetConverters ce (Some targetType)) source targetType \<and>
      ifacesDecline E (interfaceConverters ce) source targetType)"

text \<open>The converter returns an error that is not the sentinel.\<close>

definition aborts :: "ConverterFunc \<Rightarrow> val \<Rightarrow> gtype \<Rightarrow> error \<Rightarrow> bool" where
  "aborts c source targetType err =
     (c source targetType = Err err \<and> err \<noteq> ErrNoConversionAvailable)"

text \<open>The result is not the sentinel error.\<close>

definition notSentinel :: "val result option \<Rightarrow> bool" where
  "notSentinel ro = (ro \<noteq> Some (Err ErrNoConversionAvailable))"

text \<open>
  The data of a value fit the kind of its type, and an integer is within the range of
  its kind: what every Go value satisfies.
\<close>

definition fits :: "val \<Rightarrow> bool" where
  "fits v =
     (case v of
        VNil \<Rightarrow> True
      | VBool t b \<Rightarrow> Kind t = Bool
      | VInt t i \<Rightarrow>
          isInt (Kind t) \<and> - (2 ^ (bitSize (Kind t) - 1)) \<le> i \<and> i < 2 ^ (bitSize (Kind t) - 1)
      | VUint t u \<Rightarrow> isUint (Kind t) \<and> u < 2 ^ bitSize (Kind t)
      | VFloat t f \<Rightarrow> isFloat (Kind t)
      | VString t s \<Rightarrow> Kind t = String
      | VSlice t xs \<Rightarrow> Kind t = Slice
      | VMap t kvs \<Rightarrow> Kind t = Map
      | VStruct t fs \<Rightarrow> Kind t = Struct
      | VPtr t a \<Rightarrow> Kind t = Ptr)"

text \<open>
  The source can be printed by the rule for string targets (lines 176-190), and the
  target can be parsed from a string (lines 196-221).
\<close>

definition printable :: "env \<Rightarrow> val \<Rightarrow> gtype \<Rightarrow> bool" where
  "printable E source sourceType =
     (asserts E source Stringer \<or> Kind sourceType = Bool \<or> isInt (Kind sourceType) \<or>
      isUint (Kind sourceType) \<or> isFloat (Kind sourceType))"

definition parsable :: "gtype \<Rightarrow> bool" where
  "parsable targetType =
     (Kind targetType = Bool \<or> isInt (Kind targetType) \<or> isUint (Kind targetType) \<or>
      isFloat (Kind targetType))"



text \<open>
  The entries that \<^verbatim>\<open>convertMap\<close> has inserted, one \<^verbatim>\<open>SetMapIndex\<close> after the other, into
  the map \<open>T\<close>.
\<close>

definition inserted :: "(val \<times> val) list \<Rightarrow> (val \<times> val) list \<Rightarrow> (val \<times> val) list" where
  "inserted kvs T = fold (\<lambda>(k, v). AList.update k v) kvs T"

text \<open>
  An entry of the source map converts to the entry \<open>kv'\<close>: its value converts to the
  element type, its key converts to the key type, and the converted key can be
  hashed. An entry fails with an error: its value does, or its value converts and its
  key fails (\<^verbatim>\<open>convertMap\<close> converts the value first).
\<close>

definition entryOk :: "call \<Rightarrow> gtype \<Rightarrow> gtype \<Rightarrow> val \<times> val \<Rightarrow> val \<times> val \<Rightarrow> bool" where
  "entryOk recur e k kv kv' =
     (recur (snd kv) e = Some (Ok (snd kv')) \<and> recur (fst kv) k = Some (Ok (fst kv')) \<and>
      hashable (fst kv'))"

definition entryErr :: "call \<Rightarrow> gtype \<Rightarrow> gtype \<Rightarrow> val \<times> val \<Rightarrow> error \<Rightarrow> bool" where
  "entryErr recur e k kv err =
     (recur (snd kv) e = Some (Err err) \<or>
      ((\<exists>v. recur (snd kv) e = Some (Ok v)) \<and> recur (fst kv) k = Some (Err err)))"

text \<open>
  A floating-point value is representable in its textual rendering: parsing what
  \<^verbatim>\<open>FormatFloat(f, 'g', 6, bits)\<close> prints, at the width of the type, gives the value
  back. Values of the other kinds always are.
\<close>

definition representable :: "env \<Rightarrow> val \<Rightarrow> bool" where
  "representable E v =
     (case v of
        VFloat T f \<Rightarrow>
          (case ParseFloat E (FormatFloat E f (bitSize (Kind T))) (bitSize (Kind T)) of
             (g, None) \<Rightarrow> (if Kind T = Float32 then float32_of E g else g) = f
           | (g, Some err) \<Rightarrow> False)
      | _ \<Rightarrow> True)"

section \<open>The programs and engines of the examples\<close>

text \<open>
  A program whose types have no methods. The examples that use it never reach the
  library functions on floats and UTF-8, which are left trivial.
\<close>

definition noMethods :: env where
  "noMethods =
     \<lparr>methods = (\<lambda>t. []), ConvertTo_method = (\<lambda>v t. Err ErrNoConversionAvailable),
      String_method = (\<lambda>v. []), FormatFloat = (\<lambda>f b. []),
      parseFloat = (\<lambda>s b. (0, Some ErrSyntax)),
      float64_of = (\<lambda>f. f), float32_of = (\<lambda>f. f), runes_of = (\<lambda>s. []),
      string_of_runes = (\<lambda>rs. [])\<rparr>"

text \<open>
  The types and the source converter of \<^verbatim>\<open>convert_test.go\<close> (lines 19-20 and 177-187).
  The converter rounds a \<^verbatim>\<open>FloatAlias\<close> to the nearest \<^verbatim>\<open>int\<close> when the target has kind
  \<^verbatim>\<open>Int\<close>; the type assertion \<^verbatim>\<open>source.(FloatAlias)\<close> panics on any other source. The
  difference between a float and its integer part is exact in floating-point
  arithmetic. \<open>f27\<close> is the \<^verbatim>\<open>float64\<close> nearest to 2.7.
\<close>

definition FloatAlias :: gtype where
  "FloatAlias = Named ''FloatAlias'' (Basic Float64)"

definition IntAlias :: gtype where
  "IntAlias = Named ''IntAlias'' (Basic IntK)"

definition roundFloatAlias :: ConverterFunc where
  "roundFloatAlias source targetType =
     (if Kind targetType = IntK then
        (case source of
           VFloat t f \<Rightarrow>
             if t = FloatAlias then
               (let d = f - of_int (trunc f) in
                if d > 1 / 2 then Ok (makeInt (uint64 (trunc f + 1)) (Basic IntK))
                else Ok (makeInt (uint64 (trunc f)) (Basic IntK)))
             else Panic
         | _ \<Rightarrow> Panic)
      else Err ErrNoConversionAvailable)"

definition testEngine :: ConverterEngine where
  "testEngine = AddSourceConverter New (Some FloatAlias) roundFloatAlias"

definition f27 :: rat where
  "f27 = 3039929748475085 / 1125899906842624"

text \<open>An engine whose source converter for \<^verbatim>\<open>string\<close> fails with an error of its own.\<close>

definition failingEngine :: ConverterEngine where
  "failingEngine =
     AddSourceConverter New (Some (Basic String)) (\<lambda>source targetType. Err (OtherError ''boom''))"

text \<open>
  Engines with one source converter that returns a fixed value: for \<^verbatim>\<open>[]string\<close>, for
  \<^verbatim>\<open>map[string]string\<close>, and for \<^verbatim>\<open>int\<close>.
\<close>

definition sliceEngine :: ConverterEngine where
  "sliceEngine =
     AddSourceConverter New (Some (SliceOf (Basic String)))
       (\<lambda>source targetType. Ok (VSlice (SliceOf (Basic IntK)) [VInt (Basic IntK) 42]))"

definition mapEngine :: ConverterEngine where
  "mapEngine =
     AddSourceConverter New (Some (MapOf (Basic String) (Basic String)))
       (\<lambda>source targetType. Ok (VMap (MapOf (Basic IntK) (Basic String)) []))"

definition intEngine :: ConverterEngine where
  "intEngine =
     AddSourceConverter New (Some (Basic IntK))
       (\<lambda>source targetType. Ok (VString (Basic String) ''x''))"

text \<open>An engine whose source converter for \<^verbatim>\<open>string\<close> returns a slice.\<close>

definition keyEngine :: ConverterEngine where
  "keyEngine =
     AddSourceConverter New (Some (Basic String))
       (\<lambda>source targetType. Ok (VSlice (SliceOf (Basic IntK)) []))"

text \<open>
  A program with a defined integer type that has a \<^verbatim>\<open>String\<close> method, as
  \<^verbatim>\<open>time.Duration\<close> or an enumeration has:
  \<^verbatim>\<open>type Level int; func (l Level) String() string { return "high" }\<close>.
\<close>

definition Level :: gtype where
  "Level = Named ''Level'' (Basic IntK)"

definition levelProgram :: env where
  "levelProgram =
     noMethods\<lparr>methods := (\<lambda>t. if t = Level then [''String''] else []),
                String_method := (\<lambda>v. ''high'')\<rparr>"



section \<open>A result, once there, stays at every greater depth\<close>

text \<open>The equation of \<^verbatim>\<open>Convert\<close> is unfolded only where a proof asks for it.\<close>

declare Convert.simps(2) [simp del]

lemma opt_le_refl: "opt_le a a"
  by (simp add: opt_le_def)

lemma opt_le_Some: "opt_le (Some r) b \<longleftrightarrow> b = Some r"
  by (auto simp: opt_le_def)

lemma opt_le_None: "opt_le None b"
  by (simp add: opt_le_def)

lemma call_leD: "call_le f g \<Longrightarrow> f x t = Some r \<Longrightarrow> g x t = Some r"
  by (simp add: call_le_def opt_le_def)

lemma tryConverters_mono:
  "call_le f g \<Longrightarrow> opt_le a b \<Longrightarrow>
   opt_le (tryConverters f cs s t a) (tryConverters g cs s t b)"
  by (induction cs) (auto simp: call_le_def opt_le_refl split: result.splits)

lemma tryConverterTo_mono:
  "call_le f g \<Longrightarrow> opt_le a b \<Longrightarrow>
   opt_le (tryConverterTo E f s t a) (tryConverterTo E g s t b)"
  by (auto simp: tryConverterTo_def call_le_def opt_le_refl split: result.splits)

lemma tryImplemented_mono:
  "call_le f g \<Longrightarrow> opt_le a b \<Longrightarrow>
   opt_le (tryImplemented E f i cs s t a) (tryImplemented E g i cs s t b)"
  by (induction cs) (auto simp: call_le_def opt_le_refl split: result.splits option.splits bool.splits)

lemma tryInterfaceConverters_mono:
  "call_le f g \<Longrightarrow> opt_le a b \<Longrightarrow>
   opt_le (tryInterfaceConverters E f ics s t a) (tryInterfaceConverters E g ics s t b)"
  by (induction ics) (auto intro: tryImplemented_mono)

lemma toString_mono: "opt_le a b \<Longrightarrow> opt_le (toString E s t a) (toString E s t b)"
  by (auto simp: toString_def opt_le_refl split: option.splits val.splits)

lemma fromString_mono: "opt_le a b \<Longrightarrow> opt_le (fromString E s t a) (fromString E s t b)"
  by (auto simp: fromString_def opt_le_refl split: option.splits val.splits prod.splits)

lemma sliceLoop_mono:
  "call_le f g \<Longrightarrow> opt_le (sliceLoop E f xs t e T) (sliceLoop E g xs t e T)"
proof (induction xs arbitrary: T)
  case Nil
  then show ?case by (simp add: opt_le_refl)
next
  case (Cons x xs)
  show ?case
  proof (cases "f x e")
    case None
    then show ?thesis by (simp add: opt_le_None)
  next
    case (Some r)
    with Cons.prems have "g x e = Some r" by (auto dest: call_leD)
    with Some Cons.IH[OF Cons.prems] show ?thesis
      by (auto simp: opt_le_refl split: result.splits option.splits)
  qed
qed

lemma mapLoop_mono:
  "call_le f g \<Longrightarrow> opt_le (mapLoop E f kvs t e k T) (mapLoop E g kvs t e k T)"
proof (induction kvs arbitrary: T)
  case Nil
  then show ?case by (simp add: opt_le_refl)
next
  case (Cons kv kvs)
  obtain k0 v0 where kv: "kv = (k0, v0)" by (cases kv)
  show ?case
  proof (cases "f v0 e")
    case None
    then show ?thesis by (simp add: kv opt_le_None)
  next
    case (Some r)
    with Cons.prems have gv: "g v0 e = Some r" by (auto dest: call_leD)
    show ?thesis
    proof (cases "f k0 k")
      case None
      with Some gv show ?thesis
        by (auto simp: kv opt_le_None opt_le_refl split: result.splits)
    next
      case (Some r')
      with Cons.prems have gk: "g k0 k = Some r'" by (auto dest: call_leD)
      with \<open>f v0 e = Some r\<close> gv Some Cons.IH[OF Cons.prems] show ?thesis
        by (auto simp: kv opt_le_refl split: result.splits option.splits)
    qed
  qed
qed

lemma containers_mono:
  "call_le f g \<Longrightarrow> opt_le (containers E f s t) (containers E g s t)"
  by (auto simp: containers_def convertSlice_def convertMap_def opt_le_refl
      intro: sliceLoop_mono mapLoop_mono split: option.splits val.splits)

lemma builtin_mono:
  "call_le f g \<Longrightarrow> opt_le (builtin E f s t) (builtin E g s t)"
  by (simp add: builtin_def Let_def toString_mono fromString_mono containers_mono)

lemma resolve_mono:
  "call_le f g \<Longrightarrow> opt_le (resolve E ce f s t) (resolve E ce g s t)"
  by (simp add: resolve_def opt_le_refl tryConverters_mono tryConverterTo_mono
      tryInterfaceConverters_mono builtin_mono)

lemma Convert_Suc_le: "call_le (Convert n E ce) (Convert (Suc n) E ce)"
proof (induction n)
  case 0
  then show ?case by (simp add: call_le_def opt_le_None)
next
  case (Suc n)
  show ?case
    unfolding call_le_def
  proof (intro allI)
    fix x t
    have l: "Convert (Suc n) E ce x t = resolve E ce (Convert n E ce) x t"
      by (rule Convert.simps(2))
    have r: "Convert (Suc (Suc n)) E ce x t = resolve E ce (Convert (Suc n) E ce) x t"
      by (rule Convert.simps(2))
    show "opt_le (Convert (Suc n) E ce x t) (Convert (Suc (Suc n)) E ce x t)"
      unfolding l r by (rule resolve_mono[OF Suc])
  qed
qed

lemma Convert_mono:
  "Convert n E ce s t = Some r \<Longrightarrow> n \<le> m \<Longrightarrow> Convert m E ce s t = Some r"
proof (induction m)
  case 0
  then show ?case by simp
next
  case (Suc m)
  show ?case
  proof (cases "n = Suc m")
    case True
    with Suc show ?thesis by simp
  next
    case False
    with Suc have "Convert m E ce s t = Some r" by simp
    then show ?thesis by (rule call_leD[OF Convert_Suc_le])
  qed
qed

lemma converts_det: "converts E ce s t r \<Longrightarrow> converts E ce s t r' \<Longrightarrow> r = r'"
proof -
  assume "converts E ce s t r" "converts E ce s t r'"
  then obtain n m where n: "Convert n E ce s t = Some r" and m: "Convert m E ce s t = Some r'"
    by (auto simp: converts_def)
  from Convert_mono[OF n, of "max n m"] Convert_mono[OF m, of "max n m"] show ?thesis by simp
qed

section \<open>The type of what \<^verbatim>\<open>Convert\<close> returns\<close>

lemma Kind_underlying: "Kind (underlying t) = Kind t"
proof (cases t)
  case (Named n u)
  then show ?thesis by (cases u) simp_all
qed simp_all

lemma implements_Interface: "implements E T I \<Longrightarrow> Kind I = Interface"
  using Kind_underlying[of I] by (auto simp: implements_def split: gtype.splits)

lemma TypeOf_retype: "v \<noteq> VNil \<Longrightarrow> TypeOf (retype t v) = Some t"
  by (cases v) auto

lemma TypeOf_makeInt: "TypeOf (makeInt b t) = Some t"
  by (simp add: makeInt_def)

lemma TypeOf_makeFloat: "TypeOf (makeFloat E f t) = Some t"
  by (simp add: makeFloat_def)

lemma applyOp_typed:
  "applyOp E op v t = Some r \<Longrightarrow> op \<noteq> cvtT2I \<Longrightarrow> TypeOf r = Some t"
  by (cases op; cases v)
     (auto simp: applyOp_def TypeOf_makeInt TypeOf_makeFloat split: if_splits)

lemma convertOp_T2I:
  "convertOp E t s = Some cvtT2I \<Longrightarrow> implements E s t"
  by (auto simp: convertOp_def kindOp_def split: option.splits if_splits)

lemma Value_Convert_typed: "Value_Convert E v t = Some r \<Longrightarrow> typed E r t"
proof -
  assume a: "Value_Convert E v t = Some r"
  then obtain s op where s: "TypeOf v = Some s" and op: "convertOp E t s = Some op"
    and r: "applyOp E op v t = Some r"
    by (auto simp: Value_Convert_def split: option.splits)
  show ?thesis
  proof (cases "op = cvtT2I")
    case True
    with r have "r = v" by (cases v) (auto simp: applyOp_def)
    with s convertOp_T2I[of E t s] op True show ?thesis
      by (auto simp: typed_def dest: implements_Interface)
  next
    case False
    with applyOp_typed[OF r] show ?thesis by (simp add: typed_def)
  qed
qed

lemma kind2Exact_typed: "okTyped E t (Some (kind2Exact E v t))"
  by (auto simp: okTyped_def kind2Exact_def dest: Value_Convert_typed split: option.splits)

lemma okTyped_simps:
  "okTyped E t None" "okTyped E t (Some Panic)" "okTyped E t (Some (Err e))"
  by (simp_all add: okTyped_def)

lemma tryConverters_typed:
  "callTyped E f \<Longrightarrow> okTyped E t a \<Longrightarrow> okTyped E t (tryConverters f cs s t a)"
  by (induction cs) (auto simp: callTyped_def okTyped_simps split: result.splits)

lemma tryConverterTo_typed:
  "callTyped E f \<Longrightarrow> okTyped E t a \<Longrightarrow> okTyped E t (tryConverterTo E f s t a)"
  by (auto simp: tryConverterTo_def callTyped_def okTyped_simps split: result.splits)

lemma tryImplemented_typed:
  "callTyped E f \<Longrightarrow> okTyped E t a \<Longrightarrow> okTyped E t (tryImplemented E f i cs s t a)"
  by (induction cs)
     (auto simp: callTyped_def okTyped_simps split: result.splits option.splits bool.splits)

lemma tryInterfaceConverters_typed:
  "callTyped E f \<Longrightarrow> okTyped E t a \<Longrightarrow> okTyped E t (tryInterfaceConverters E f ics s t a)"
  by (induction ics) (auto intro: tryImplemented_typed)

lemma toString_typed: "okTyped E t a \<Longrightarrow> okTyped E t (toString E s t a)"
  by (auto simp: toString_def okTyped_simps kind2Exact_typed split: option.splits val.splits)

lemma fromString_typed: "okTyped E t a \<Longrightarrow> okTyped E t (fromString E s t a)"
  by (auto simp: fromString_def okTyped_simps kind2Exact_typed
      split: option.splits val.splits prod.splits)

lemma sliceLoop_TypeOf: "sliceLoop E f xs t e T = Some (Ok v) \<Longrightarrow> TypeOf v = Some t"
  by (induction xs arbitrary: T) (auto split: option.splits result.splits)

lemma mapLoop_TypeOf: "mapLoop E f kvs t e k T = Some (Ok v) \<Longrightarrow> TypeOf v = Some t"
  by (induction kvs arbitrary: T) (auto split: option.splits result.splits)

lemma sliceLoop_typed: "okTyped E t (sliceLoop E f xs t e T)"
  by (auto simp: okTyped_def typed_def dest: sliceLoop_TypeOf)

lemma mapLoop_typed: "okTyped E t (mapLoop E f kvs t e k T)"
  by (auto simp: okTyped_def typed_def dest: mapLoop_TypeOf)

lemma convertReflect_typed: "okTyped E t (Some (convertReflect E s t))"
  by (auto simp: okTyped_def convertReflect_def dest: Value_Convert_typed
      split: option.splits if_splits)

lemma containers_typed: "okTyped E t (containers E f s t)"
  by (auto simp: containers_def convertSlice_def convertMap_def okTyped_simps
      sliceLoop_typed mapLoop_typed convertReflect_typed split: option.splits val.splits)

lemma builtin_typed: "okTyped E t (builtin E f s t)"
  by (simp add: builtin_def Let_def toString_typed fromString_typed containers_typed)

lemma resolve_typed: "callTyped E f \<Longrightarrow> okTyped E t (resolve E ce f s t)"
  by (auto simp: resolve_def tryConverters_typed tryConverterTo_typed
      tryInterfaceConverters_typed builtin_typed)
     (simp add: okTyped_def typed_def)

lemma Convert_callTyped: "callTyped E (Convert n E ce)"
proof (induction n)
  case 0
  then show ?case by (simp add: callTyped_def okTyped_simps)
next
  case (Suc n)
  show ?case
    unfolding callTyped_def
  proof (intro allI)
    fix x t
    have "Convert (Suc n) E ce x t = resolve E ce (Convert n E ce) x t"
      by (rule Convert.simps(2))
    then show "okTyped E t (Convert (Suc n) E ce x t)"
      using resolve_typed[OF Suc] by simp
  qed
qed

section \<open>Evaluating the model on concrete inputs\<close>

lemmas eval_defs = Convert.simps(2) resolve_def builtin_def containers_def convertReflect_def ConvertibleTo_def
  convertOp_def kindOp_def implements_def asserts_def toString_def fromString_def ParseFloat_def
  tryConverterTo_def Value_Convert_def applyOp_def haveIdenticalUnderlyingType_def
  compositeKind_def isInt_def isUint_def isFloat_def unnamedPointers_def
  ConverterTo_def Stringer_def New_def noMethods_def kind2Exact_def makeInt_def signed_def
  uint64_def Let_def

section \<open>C1: the type of a successful result\<close>

text \<open>
  Claim C1 says that a successful \<^verbatim>\<open>Convert\<close> returns a value whose exact runtime type
  is the target type. It fails for a target of interface type: reflection converts
  the value to the interface, and \<^verbatim>\<open>Value.Interface()\<close> hands back the dynamic value,
  whose type is a concrete one. \<^verbatim>\<open>Convert(5, interface{})\<close> returns the \<^verbatim>\<open>int\<close> 5.
\<close>

theorem C1_counterexample:
  "Convert (Suc 0) noMethods New (VInt (Basic IntK) 5) (InterfaceOf [])
     = Some (Ok (VInt (Basic IntK) 5)) \<and>
   TypeOf (VInt (Basic IntK) 5) \<noteq> Some (InterfaceOf [])"
  by (simp add: eval_defs)

text \<open>
  C1 as amended: whenever \<^verbatim>\<open>Convert\<close> returns a value without an error, on every path
  and at every depth, the exact type of the value is the target type, or the target
  is an interface type and the type of the value implements it.
\<close>

theorem C1_result_type:
  "Convert n E ce source targetType = Some (Ok v) \<Longrightarrow>
     TypeOf v = Some targetType \<or>
     (Kind targetType = Interface \<and> (\<exists>T. TypeOf v = Some T \<and> implements E T targetType))"
proof -
  assume "Convert n E ce source targetType = Some (Ok v)"
  with Convert_callTyped[of E n ce] have "typed E v targetType"
    by (simp add: callTyped_def okTyped_def)
  then show ?thesis
    by (cases "TypeOf v") (auto simp: typed_def)
qed

text \<open>The amended statement at \<^verbatim>\<open>Convert(int(-1), uint)\<close>.\<close>

theorem C1_result_type_witness:
  "Convert (Suc 0) noMethods New (VInt (Basic IntK) (-1)) (Basic Uint)
     = Some (Ok (VUint (Basic Uint) 18446744073709551615)) \<and>
   (TypeOf (VUint (Basic Uint) 18446744073709551615) = Some (Basic Uint) \<or>
    (Kind (Basic Uint) = Interface \<and>
     (\<exists>T. TypeOf (VUint (Basic Uint) 18446744073709551615) = Some T \<and>
          implements noMethods T (Basic Uint))))"
proof -
  have e: "Convert (Suc 0) noMethods New (VInt (Basic IntK) (-1)) (Basic Uint)
     = Some (Ok (VUint (Basic Uint) 18446744073709551615))"
    by (simp add: eval_defs)
  from C1_result_type[OF e] e show ?thesis by simp
qed

section \<open>When no custom strategy applies, the built-in rules decide\<close>

lemma tryConverters_decline:
  "allDecline cs s t \<Longrightarrow> tryConverters recur cs s t k = k"
  by (induction cs) (auto simp: declines_def allDecline_def)

lemma tryConverterTo_decline:
  "selfDeclines E s t \<Longrightarrow> tryConverterTo E recur s t k = k"
  by (auto simp: tryConverterTo_def declines_def selfDeclines_def)

lemma tryImplemented_decline:
  "TypeOf s = Some T \<Longrightarrow> Kind i = Interface \<Longrightarrow>
   asserts E s i \<longrightarrow> allDecline cs s t \<Longrightarrow>
   tryImplemented E recur i cs s t k = k"
  by (induction cs)
     (auto simp: declines_def allDecline_def Implements_def asserts_def split: bool.splits)

lemma tryInterfaceConverters_decline:
  "TypeOf s = Some T \<Longrightarrow> ifacesDecline E ics s t \<Longrightarrow>
   tryInterfaceConverters E recur ics s t k = k"
  by (induction ics) (auto simp: tryImplemented_decline ifacesDecline_def)

lemma resolve_noCustom:
  "noCustom E ce s t \<Longrightarrow> TypeOf s = Some T \<Longrightarrow> T \<noteq> t \<Longrightarrow>
   resolve E ce recur s t = builtin E recur s t"
  by (simp add: resolve_def noCustom_def tryConverters_decline tryConverterTo_decline
      tryInterfaceConverters_decline)

lemma Convert_noCustom:
  "noCustom E ce s t \<Longrightarrow> TypeOf s = Some T \<Longrightarrow> T \<noteq> t \<Longrightarrow>
   Convert (Suc n) E ce s t = builtin E (Convert n E ce) s t"
  by (simp add: resolve_noCustom Convert.simps(2))

lemma noCustom_New: "noCustom noMethods New s t"
  by (simp add: noCustom_def allDecline_def ifacesDecline_def selfDeclines_def New_def
      noMethods_def asserts_def implements_def ConverterTo_def split: option.splits)

section \<open>C4: the failure when nothing applies, and the nil source\<close>

text \<open>
  Claim C4 says that \<^verbatim>\<open>Convert\<close> returns \<^verbatim>\<open>ErrIncompatibleType\<close> whenever no strategy
  applies, and names the nil source as one such input that returns the error rather
  than crashing. On a nil source \<^verbatim>\<open>reflect.TypeOf\<close> is the nil type, and the built-in
  rules call \<^verbatim>\<open>sourceType.Kind()\<close> on it (line 181 for a string target, line 194 for any
  other): with no converter registered, \<^verbatim>\<open>Convert(nil, T)\<close> panics for every target
  type, program and depth.
\<close>

theorem C4_nil_source_panics: "Convert (Suc n) E New VNil t = Some Panic"
  by (simp add: resolve_def New_def builtin_def toString_def fromString_def asserts_def
      tryConverterTo_def containers_def Let_def Convert.simps(2))

text \<open>
  For a source that is not nil the claim holds: when no custom strategy applies, the
  target is not a string kind that the source can be printed to, the source is not a
  string to be parsed into the target, the two are not both slices or both maps, and
  the source type is not convertible to the target type, \<^verbatim>\<open>Convert\<close> returns
  \<^verbatim>\<open>ErrIncompatibleType\<close>.
\<close>

theorem Convert_incompatible:
  assumes "TypeOf source = Some sourceType" and "sourceType \<noteq> targetType"
    and "fits source"
    and "noCustom E ce source targetType"
    and "\<not> (Kind targetType = String \<and> printable E source sourceType)"
    and "\<not> (Kind sourceType = String \<and> parsable targetType)"
    and "\<not> (Kind sourceType = Slice \<and> Kind targetType = Slice)"
    and "\<not> (Kind sourceType = Map \<and> Kind targetType = Map)"
    and "\<not> ConvertibleTo E sourceType targetType"
  shows "Convert (Suc n) E ce source targetType = Some (Err ErrIncompatibleType)"
proof -
  have c: "containers E (Convert n E ce) source targetType = Some (Err ErrIncompatibleType)"
    using assms(1,7,8,9) by (auto simp: containers_def convertReflect_def)
  have f: "fromString E source targetType (Some (Err ErrIncompatibleType))
      = Some (Err ErrIncompatibleType)"
    using assms(1,3,6)
    by (cases source)
       (auto simp: fromString_def parsable_def fits_def isInt_def isUint_def isFloat_def)
  have t: "Kind targetType = String \<Longrightarrow>
      toString E source targetType (Some (Err ErrIncompatibleType))
      = Some (Err ErrIncompatibleType)"
    using assms(1,5) by (auto simp: toString_def printable_def)
  show ?thesis
    using c f t by (simp add: Convert_noCustom[OF assms(4,1,2)] builtin_def Let_def)
qed

theorem Convert_incompatible_witness:
  "TypeOf (VStruct (StructOf []) []) = Some (StructOf []) \<and>
   fits (VStruct (StructOf []) []) \<and>
   noCustom noMethods New (VStruct (StructOf []) []) (Basic IntK) \<and>
   Convert (Suc 0) noMethods New (VStruct (StructOf []) []) (Basic IntK)
     = Some (Err ErrIncompatibleType)"
proof -
  have c: "\<not> ConvertibleTo noMethods (StructOf []) (Basic IntK)"
    by (simp add: eval_defs)
  have f: "fits (VStruct (StructOf []) [])"
    by (simp add: fits_def)
  from Convert_incompatible[of "VStruct (StructOf []) []" "StructOf []" "Basic IntK"
      noMethods New 0, OF _ _ f noCustom_New _ _ _ _ c] f
  show ?thesis
    by (simp add: noCustom_New)
qed

section \<open>C10: a negative integer to an unsigned type\<close>

lemma uint64_mod:
  assumes "w \<le> 64"
  shows "uint64 i mod 2 ^ w = nat (i mod 2 ^ w)"
proof -
  have d: "(2::int) ^ w dvd 2 ^ 64"
    using assms by (rule le_imp_power_dvd)
  have "int (uint64 i mod 2 ^ w) = (i mod 2 ^ 64) mod 2 ^ w"
    by (simp add: uint64_def zmod_int)
  also have "\<dots> = i mod 2 ^ w"
    using d by (rule mod_mod_cancel)
  finally show ?thesis by linarith
qed

lemma bitSize_le: "bitSize k \<le> 64"
  by (cases k) auto

lemma isInt_kind:
  "isInt k \<Longrightarrow> \<not> isUint k \<and> \<not> isFloat k \<and> k \<noteq> String \<and> k \<noteq> Slice \<and> k \<noteq> Map \<and> k \<noteq> Bool
     \<and> k \<noteq> Interface"
  by (auto simp: isInt_def isUint_def isFloat_def)

lemma isUint_kind:
  "isUint k \<Longrightarrow> \<not> isInt k \<and> \<not> isFloat k \<and> k \<noteq> String \<and> k \<noteq> Slice \<and> k \<noteq> Map \<and> k \<noteq> Bool
     \<and> k \<noteq> Interface"
  by (auto simp: isInt_def isUint_def isFloat_def)

text \<open>
  Claim C10: for every negative value \<open>i\<close> of a signed integer type and every unsigned
  integer target type of \<open>w\<close> bits, when no custom converter applies to the pair,
  \<^verbatim>\<open>Convert\<close> succeeds and returns \<open>i mod 2 ^ w\<close> in the target type.
\<close>

theorem C10_negative_to_unsigned:
  assumes "isInt (Kind sourceType)" and "i < 0" and "isUint (Kind targetType)"
    and "noCustom E ce (VInt sourceType i) targetType"
  shows "Convert (Suc n) E ce (VInt sourceType i) targetType
      = Some (Ok (VUint targetType (nat (i mod 2 ^ bitSize (Kind targetType)))))"
proof -
  from assms(1,3) have ne: "sourceType \<noteq> targetType"
    by (auto dest: isInt_kind)
  have k: "kindOp targetType sourceType = Some cvtInt"
    using assms(1,3) by (simp add: kindOp_def)
  have r: "convertReflect E (VInt sourceType i) targetType
      = Ok (VUint targetType (nat (i mod 2 ^ bitSize (Kind targetType))))"
    using assms(3) k
    by (simp add: convertReflect_def ConvertibleTo_def convertOp_def Value_Convert_def
        applyOp_def makeInt_def uint64_mod[OF bitSize_le])
  have c: "containers E (Convert n E ce) (VInt sourceType i) targetType
      = Some (convertReflect E (VInt sourceType i) targetType)"
    using isInt_kind[OF assms(1)] by (simp add: containers_def)
  have b: "builtin E (Convert n E ce) (VInt sourceType i) targetType
      = Some (convertReflect E (VInt sourceType i) targetType)"
    using isInt_kind[OF assms(1)] isUint_kind[OF assms(3)] c
    by (simp add: builtin_def fromString_def Let_def)
  show ?thesis
    using Convert_noCustom[OF assms(4) _ ne, of n] b r by simp
qed

text \<open>The example of the claim: \<^verbatim>\<open>Convert(int(-1), uint)\<close> is \<open>2 ^ 64 - 1\<close>.\<close>

theorem C10_negative_to_unsigned_witness:
  "isInt (Kind (Basic IntK)) \<and> (-1::int) < 0 \<and> isUint (Kind (Basic Uint)) \<and>
   noCustom noMethods New (VInt (Basic IntK) (-1)) (Basic Uint) \<and>
   Convert (Suc 0) noMethods New (VInt (Basic IntK) (-1)) (Basic Uint)
     = Some (Ok (VUint (Basic Uint) 18446744073709551615))"
  using C10_negative_to_unsigned[of "Basic IntK" "-1" "Basic Uint" noMethods New 0]
  by (simp add: noCustom_New isInt_def isUint_def)

section \<open>C3: source converters come first, and their result is converted again\<close>

lemma tryConverters_first:
  "allDecline pre s t \<Longrightarrow>
   tryConverters recur (pre @ c # post) s t k =
     (case c s t of
        Ok r \<Rightarrow> recur r t
      | Err err \<Rightarrow>
          if err \<noteq> ErrNoConversionAvailable then Some (Err err)
          else tryConverters recur post s t k
      | Panic \<Rightarrow> Some Panic)"
  by (induction pre) (auto simp: allDecline_def declines_def)

lemma trunc_f27: "trunc f27 = 2"
  by (simp add: trunc_def f27_def floor_eq_iff)

lemma roundFloatAlias_f27:
  "roundFloatAlias (VFloat FloatAlias f27) (Basic IntK) = Ok (VInt (Basic IntK) 3)"
  "roundFloatAlias (VFloat FloatAlias f27) IntAlias = Ok (VInt (Basic IntK) 3)"
  by (simp_all add: roundFloatAlias_def trunc_f27 makeInt_def isUint_def signed_def uint64_def
      IntAlias_def Let_def)
     (simp_all add: f27_def)

lemma testEngine_source:
  "sourceConverters testEngine (Some FloatAlias) = [roundFloatAlias]"
  "sourceConverters testEngine (Some (Basic IntK)) = []"
  "targetConverters testEngine t = []"
  "interfaceConverters testEngine = []"
  by (simp_all add: testEngine_def AddSourceConverter_def New_def FloatAlias_def)

text \<open>
  Claim C3. In general: when the first source converter of the source's type that
  does not decline returns a value, \<^verbatim>\<open>Convert\<close> returns whatever \<^verbatim>\<open>Convert\<close> of that value
  to the same target returns, and nothing else is consulted. With the converter of the
  test suite, \<^verbatim>\<open>Convert(FloatAlias(2.7), int)\<close> is 3, where the engine without it
  truncates to 2; and for the target \<^verbatim>\<open>IntAlias\<close> the converter returns an \<^verbatim>\<open>int\<close>, which
  the engine then converts to \<^verbatim>\<open>IntAlias(3)\<close>.
\<close>

theorem C3_source_converter_precedence:
  "(TypeOf source \<noteq> Some targetType \<and>
    sourceConverters ce (TypeOf source) = pre @ c # post \<and>
    allDecline pre source targetType \<and> c source targetType = Ok r
    \<longrightarrow> Convert (Suc n) E ce source targetType = Convert n E ce r targetType) \<and>
   Convert (Suc (Suc 0)) noMethods testEngine (VFloat FloatAlias f27) (Basic IntK)
     = Some (Ok (VInt (Basic IntK) 3)) \<and>
   Convert (Suc 0) noMethods New (VFloat FloatAlias f27) (Basic IntK)
     = Some (Ok (VInt (Basic IntK) 2)) \<and>
   Convert (Suc (Suc 0)) noMethods testEngine (VFloat FloatAlias f27) IntAlias
     = Some (Ok (VInt IntAlias 3))"
proof (intro conjI impI)
  assume a: "TypeOf source \<noteq> Some targetType \<and>
    sourceConverters ce (TypeOf source) = pre @ c # post \<and>
    allDecline pre source targetType \<and> c source targetType = Ok r"
  then show "Convert (Suc n) E ce source targetType = Convert n E ce r targetType"
    by (simp add: Convert.simps(2) resolve_def tryConverters_first)
next
  show "Convert (Suc (Suc 0)) noMethods testEngine (VFloat FloatAlias f27) (Basic IntK)
     = Some (Ok (VInt (Basic IntK) 3))"
    by (simp add: Convert.simps(2) resolve_def testEngine_source roundFloatAlias_f27)
       (simp add: FloatAlias_def)
next
  show "Convert (Suc 0) noMethods New (VFloat FloatAlias f27) (Basic IntK)
     = Some (Ok (VInt (Basic IntK) 2))"
    by (simp add: eval_defs FloatAlias_def trunc_f27)
next
  have "Convert (Suc 0) noMethods testEngine (VInt (Basic IntK) 3) IntAlias
      = Some (Ok (VInt IntAlias 3))"
    by (simp add: Convert.simps(2) resolve_def testEngine_source)
       (simp add: eval_defs IntAlias_def)
  then show "Convert (Suc (Suc 0)) noMethods testEngine (VFloat FloatAlias f27) IntAlias
     = Some (Ok (VInt IntAlias 3))"
    by (simp add: Convert.simps(2)[of "Suc 0"] resolve_def testEngine_source roundFloatAlias_f27)
       (simp add: FloatAlias_def IntAlias_def)
qed

text \<open>
  The general part at the example: the call at depth 2 is the call at depth 1 on
  the \<^verbatim>\<open>int\<close> that the converter returned.
\<close>

theorem C3_source_converter_precedence_witness:
  "TypeOf (VFloat FloatAlias f27) \<noteq> Some IntAlias \<and>
   sourceConverters testEngine (TypeOf (VFloat FloatAlias f27)) = [] @ roundFloatAlias # [] \<and>
   allDecline [] (VFloat FloatAlias f27) IntAlias \<and>
   roundFloatAlias (VFloat FloatAlias f27) IntAlias = Ok (VInt (Basic IntK) 3) \<and>
   Convert (Suc (Suc 0)) noMethods testEngine (VFloat FloatAlias f27) IntAlias
     = Convert (Suc 0) noMethods testEngine (VInt (Basic IntK) 3) IntAlias"
proof -
  have h: "TypeOf (VFloat FloatAlias f27) \<noteq> Some IntAlias \<and>
    sourceConverters testEngine (TypeOf (VFloat FloatAlias f27)) = [] @ roundFloatAlias # [] \<and>
    allDecline [] (VFloat FloatAlias f27) IntAlias \<and>
    roundFloatAlias (VFloat FloatAlias f27) IntAlias = Ok (VInt (Basic IntK) 3)"
    by (simp add: testEngine_source roundFloatAlias_f27 allDecline_def)
       (simp add: FloatAlias_def IntAlias_def)
  from C3_source_converter_precedence[of "VFloat FloatAlias f27" IntAlias testEngine "[]"
      roundFloatAlias "[]" "VInt (Basic IntK) 3" "Suc 0" noMethods] h
  show ?thesis by blast
qed

section \<open>What \<^verbatim>\<open>Convert\<close> returns can be stored where the target type says\<close>

lemma retype_same: "TypeOf v = Some t \<Longrightarrow> retype t v = v"
  by (cases v) auto

lemma assignTo_typed: "typed E v t \<Longrightarrow> assignTo E v t = Some v"
  by (cases "TypeOf v")
     (auto simp: typed_def assignTo_def directlyAssignable_def retype_same)

lemma Convert_assignTo:
  "Convert n E ce s t = Some (Ok v) \<Longrightarrow> assignTo E v t = Some v"
  using Convert_callTyped[of E n ce]
  by (auto simp: callTyped_def okTyped_def intro: assignTo_typed)

section \<open>C8: \<^verbatim>\<open>Set\<close>\<close>

text \<open>
  Claim C8 says that every call of \<^verbatim>\<open>Set\<close> either fails with \<^verbatim>\<open>ErrExpectedPointer\<close> (the
  target is no pointer) or goes on to \<^verbatim>\<open>Convert\<close> and returns its error or writes its
  value. The guard of \<^verbatim>\<open>Set\<close> tests the kind of the target only: a nil pointer passes
  it, \<^verbatim>\<open>T.Elem()\<close> is then the zero \<^verbatim>\<open>Value\<close>, and \<^verbatim>\<open>T.Type()\<close> panics before \<^verbatim>\<open>Convert\<close> is
  called.
\<close>

theorem C8_counterexample:
  "Set (Suc 0) noMethods New Map.empty (VPtr (PtrTo (Basic IntK)) 0) (VInt (Basic IntK) 5)
     = Some (Panic, Map.empty)"
  by (simp add: Set_def)

text \<open>
  C8 as amended. A target that is nil or whose type is not of pointer kind: \<^verbatim>\<open>Set\<close>
  returns \<^verbatim>\<open>ErrExpectedPointer\<close> and the store is unchanged. A target that is a pointer
  other than nil, to a place of type \<open>elemType\<close>: if \<^verbatim>\<open>Convert(source, elemType)\<close> returns
  an error, \<^verbatim>\<open>Set\<close> returns that error and the store is unchanged; if it returns a
  value, \<^verbatim>\<open>Set\<close> returns no error and the store holds the value at the pointer's
  address, and is unchanged elsewhere.
\<close>

theorem C8_Set:
  "((TypeOf target = None \<or> (\<exists>tt. TypeOf target = Some tt \<and> Kind tt \<noteq> Ptr))
      \<longrightarrow> Set n E ce h target source = Some (Err ErrExpectedPointer, h)) \<and>
   (Kind tt = Ptr \<and> a \<noteq> 0 \<and> Elem tt = Some elemType \<longrightarrow>
      (Convert n E ce source elemType = Some (Err err)
         \<longrightarrow> Set n E ce h (VPtr tt a) source = Some (Err err, h)) \<and>
      (Convert n E ce source elemType = Some (Ok v)
         \<longrightarrow> Set n E ce h (VPtr tt a) source = Some (Ok (), h(a \<mapsto> v))))"
  by (auto simp: Set_def Convert_assignTo)

text \<open>
  The three cases at \<^verbatim>\<open>Set(3, 4)\<close>, at \<^verbatim>\<open>Set(&b, "x")\<close> for a \<^verbatim>\<open>bool\<close> at address 1, and at
  \<^verbatim>\<open>Set(&i, "7")\<close> for an \<^verbatim>\<open>int\<close> at address 1.
\<close>

theorem C8_Set_witness:
  "(\<exists>tt. TypeOf (VInt (Basic IntK) 3) = Some tt \<and> Kind tt \<noteq> Ptr) \<and>
   Set (Suc 0) noMethods New Map.empty (VInt (Basic IntK) 3) (VInt (Basic IntK) 4)
     = Some (Err ErrExpectedPointer, Map.empty) \<and>
   Kind (PtrTo (Basic Bool)) = Ptr \<and> (1::nat) \<noteq> 0 \<and>
   Elem (PtrTo (Basic Bool)) = Some (Basic Bool) \<and>
   Convert (Suc 0) noMethods New (VString (Basic String) ''x'') (Basic Bool)
     = Some (Err (NumError ''ParseBool'' ''x'' ErrSyntax)) \<and>
   Set (Suc 0) noMethods New Map.empty (VPtr (PtrTo (Basic Bool)) 1) (VString (Basic String) ''x'')
     = Some (Err (NumError ''ParseBool'' ''x'' ErrSyntax), Map.empty) \<and>
   Convert (Suc 0) noMethods New (VString (Basic String) ''7'') (Basic IntK)
     = Some (Ok (VInt (Basic IntK) 7)) \<and>
   Set (Suc 0) noMethods New Map.empty (VPtr (PtrTo (Basic IntK)) 1) (VString (Basic String) ''7'')
     = Some (Ok (), Map.empty(1 \<mapsto> VInt (Basic IntK) 7))"
proof -
  have b: "Convert (Suc 0) noMethods New (VString (Basic String) ''x'') (Basic Bool)
     = Some (Err (NumError ''ParseBool'' ''x'' ErrSyntax))"
    by (simp add: eval_defs ParseBool_def)
  have i: "Convert (Suc 0) noMethods New (VString (Basic String) ''7'') (Basic IntK)
     = Some (Ok (VInt (Basic IntK) 7))"
    by (simp add: eval_defs ParseInt_def ParseUint_def cutoff_def)
  from C8_Set[where target = "VInt (Basic IntK) 3" and n = "Suc 0" and E = noMethods
      and ce = New and h = Map.empty and source = "VInt (Basic IntK) 4"]
    C8_Set[where n = "Suc 0" and E = noMethods and ce = New and h = Map.empty
      and source = "VString (Basic String) ''x''" and tt = "PtrTo (Basic Bool)" and a = 1
      and elemType = "Basic Bool" and err = "NumError ''ParseBool'' ''x'' ErrSyntax"]
    C8_Set[where n = "Suc 0" and E = noMethods and ce = New and h = Map.empty
      and source = "VString (Basic String) ''7''" and tt = "PtrTo (Basic IntK)" and a = 1
      and elemType = "Basic IntK" and v = "VInt (Basic IntK) 7"]
    b i
  show ?thesis by simp
qed

section \<open>C2: the sentinel and the other errors of a converter\<close>

lemma tryConverters_notSentinel:
  "(\<And>x. notSentinel (recur x t)) \<Longrightarrow> notSentinel k \<Longrightarrow>
   notSentinel (tryConverters recur cs s t k)"
  by (induction cs) (auto simp: notSentinel_def split: result.splits)

lemma tryConverterTo_notSentinel:
  "(\<And>x. notSentinel (recur x t)) \<Longrightarrow> notSentinel k \<Longrightarrow>
   notSentinel (tryConverterTo E recur s t k)"
  by (auto simp: tryConverterTo_def notSentinel_def split: result.splits)

lemma tryImplemented_notSentinel:
  "(\<And>x. notSentinel (recur x t)) \<Longrightarrow> notSentinel k \<Longrightarrow>
   notSentinel (tryImplemented E recur i cs s t k)"
  by (induction cs) (auto simp: notSentinel_def split: result.splits option.splits bool.splits)

lemma tryInterfaceConverters_notSentinel:
  "(\<And>x. notSentinel (recur x t)) \<Longrightarrow> notSentinel k \<Longrightarrow>
   notSentinel (tryInterfaceConverters E recur ics s t k)"
  by (induction ics) (auto intro!: tryImplemented_notSentinel)

lemma notSentinel_simps:
  "notSentinel None" "notSentinel (Some Panic)" "notSentinel (Some (Ok v))"
  "notSentinel (Some (Err e)) \<longleftrightarrow> e \<noteq> ErrNoConversionAvailable"
  by (simp_all add: notSentinel_def)

lemma kind2Exact_notSentinel: "notSentinel (Some (kind2Exact E v t))"
  by (simp add: notSentinel_def kind2Exact_def split: option.splits)

lemma toString_notSentinel: "notSentinel k \<Longrightarrow> notSentinel (toString E s t k)"
  by (cases s) (simp_all add: toString_def kind2Exact_notSentinel notSentinel_simps)

lemma ParseBool_err: "ParseBool s = (b, Some e) \<Longrightarrow> e \<noteq> ErrNoConversionAvailable"
  by (auto simp: ParseBool_def split: if_splits)

lemma ParseUint_err: "ParseUint s w = (u, Some e) \<Longrightarrow> e \<noteq> ErrNoConversionAvailable"
  by (auto simp: ParseUint_def split: if_splits sum.splits num_err.splits)

lemma ParseInt_err: "ParseInt s w = (i, Some e) \<Longrightarrow> e \<noteq> ErrNoConversionAvailable"
  by (auto simp: ParseInt_def Let_def split: if_splits prod.splits)

lemma ParseFloat_err: "ParseFloat E s w = (f, Some e) \<Longrightarrow> e \<noteq> ErrNoConversionAvailable"
  by (auto simp: ParseFloat_def split: prod.splits option.splits)

lemma parsed_notSentinel:
  "(\<And>b e. p = (b, Some e) \<Longrightarrow> e \<noteq> ErrNoConversionAvailable) \<Longrightarrow>
   notSentinel (case p of (b, Some err) \<Rightarrow> Some (Err err)
                | (b, None) \<Rightarrow> Some (kind2Exact E (g b) t))"
  by (cases p; cases "snd p") (auto simp: notSentinel_simps kind2Exact_notSentinel)

lemma fromString_notSentinel: "notSentinel k \<Longrightarrow> notSentinel (fromString E s t k)"
  by (cases s)
     (simp_all add: fromString_def notSentinel_simps parsed_notSentinel ParseBool_err
        ParseInt_err ParseUint_err ParseFloat_err)

lemma sliceLoop_notSentinel:
  "(\<And>x t. notSentinel (recur x t)) \<Longrightarrow> notSentinel (sliceLoop E recur xs t e T)"
  by (induction xs arbitrary: T)
     (auto simp: notSentinel_def split: option.splits result.splits)

lemma mapLoop_notSentinel:
  "(\<And>x t. notSentinel (recur x t)) \<Longrightarrow> notSentinel (mapLoop E recur kvs t e k T)"
  by (induction kvs arbitrary: T)
     (auto simp: notSentinel_def split: option.splits result.splits)

lemma convertReflect_notSentinel: "notSentinel (Some (convertReflect E s t))"
  by (simp add: convertReflect_def notSentinel_simps split: option.splits)

lemma containers_notSentinel:
  "(\<And>x t. notSentinel (recur x t)) \<Longrightarrow> notSentinel (containers E recur s t)"
  by (cases s)
     (simp_all add: containers_def convertSlice_def convertMap_def convertReflect_notSentinel
        sliceLoop_notSentinel mapLoop_notSentinel notSentinel_simps split: option.splits)

lemma builtin_notSentinel:
  "(\<And>x t. notSentinel (recur x t)) \<Longrightarrow> notSentinel (builtin E recur s t)"
  by (simp add: builtin_def Let_def toString_notSentinel fromString_notSentinel
      containers_notSentinel)

lemma resolve_notSentinel:
  "(\<And>x t. notSentinel (recur x t)) \<Longrightarrow> notSentinel (resolve E ce recur s t)"
  by (simp add: resolve_def tryConverters_notSentinel tryConverterTo_notSentinel
      tryInterfaceConverters_notSentinel builtin_notSentinel)
     (simp add: notSentinel_def)

lemma Convert_notSentinel: "notSentinel (Convert n E ce s t)"
proof (induction n arbitrary: s t)
  case 0
  then show ?case by (simp add: notSentinel_def)
next
  case (Suc n)
  then show ?case by (simp add: Convert.simps(2) resolve_notSentinel)
qed

lemma tryImplemented_first:
  "TypeOf s = Some T \<Longrightarrow> Kind i = Interface \<Longrightarrow> asserts E s i \<Longrightarrow>
   allDecline pre s t \<Longrightarrow>
   tryImplemented E recur i (pre @ c # post) s t k =
     (case c s t of
        Ok r \<Rightarrow> recur r t
      | Err err \<Rightarrow>
          if err \<noteq> ErrNoConversionAvailable then Some (Err err)
          else tryImplemented E recur i post s t k
      | Panic \<Rightarrow> Some Panic)"
  by (induction pre)
     (auto simp: allDecline_def declines_def Implements_def asserts_def)

lemma tryInterfaceConverters_append:
  "TypeOf s = Some T \<Longrightarrow> ifacesDecline E ipre s t \<Longrightarrow>
   tryInterfaceConverters E recur (ipre @ rest) s t k =
     tryInterfaceConverters E recur rest s t k"
  by (induction ipre) (auto simp: ifacesDecline_def tryImplemented_decline)

lemma Convert_abort_source:
  assumes "TypeOf source \<noteq> Some targetType"
    and "sourceConverters ce (TypeOf source) = pre @ c # post"
    and "allDecline pre source targetType" and "aborts c source targetType err"
  shows "Convert (Suc n) E ce source targetType = Some (Err err)"
  using assms by (simp add: Convert.simps(2) resolve_def tryConverters_first aborts_def)

lemma Convert_abort_self:
  assumes "TypeOf source \<noteq> Some targetType"
    and "allDecline (sourceConverters ce (TypeOf source)) source targetType"
    and "asserts E source ConverterTo" and "aborts (ConvertTo_method E) source targetType err"
  shows "Convert (Suc n) E ce source targetType = Some (Err err)"
  using assms
  by (simp add: Convert.simps(2) resolve_def tryConverters_decline tryConverterTo_def aborts_def)

lemma Convert_abort_target:
  assumes "TypeOf source \<noteq> Some targetType"
    and "allDecline (sourceConverters ce (TypeOf source)) source targetType"
    and "selfDeclines E source targetType"
    and "targetConverters ce (Some targetType) = pre @ c # post"
    and "allDecline pre source targetType" and "aborts c source targetType err"
  shows "Convert (Suc n) E ce source targetType = Some (Err err)"
  using assms
  by (simp add: Convert.simps(2) resolve_def tryConverters_decline tryConverterTo_decline
      tryConverters_first aborts_def)

lemma Convert_abort_interface:
  assumes "TypeOf source \<noteq> Some targetType"
    and "allDecline (sourceConverters ce (TypeOf source)) source targetType"
    and "selfDeclines E source targetType"
    and "allDecline (targetConverters ce (Some targetType)) source targetType"
    and "interfaceConverters ce = ipre @ (itype, pre @ c # post) # ipost"
    and "ifacesDecline E ipre source targetType"
    and "Kind itype = Interface" and "asserts E source itype"
    and "allDecline pre source targetType" and "aborts c source targetType err"
  shows "Convert (Suc n) E ce source targetType = Some (Err err)"
proof -
  from assms(8) obtain T where T: "TypeOf source = Some T"
    by (auto simp: asserts_def split: option.splits)
  show ?thesis
    using assms
    by (simp add: Convert.simps(2) resolve_def tryConverters_decline tryConverterTo_decline
        tryInterfaceConverters_append[OF T] tryImplemented_first[OF T] aborts_def)
qed

text \<open>
  Claim C2, for every engine, program, source, target and depth. (1) \<^verbatim>\<open>Convert\<close> never
  returns \<^verbatim>\<open>ErrNoConversionAvailable\<close>. (2) When the types differ and a converter that
  \<^verbatim>\<open>Convert\<close> reaches returns an error other than the sentinel, \<^verbatim>\<open>Convert\<close> returns exactly
  that error, whatever the later converters and the built-in rules would do: for a
  source converter after source converters that declined; for \<^verbatim>\<open>ConvertTo\<close> after all
  source converters declined; for a target converter after those and after target
  converters that declined; for a converter of an interface that the source
  implements, after all of those and the interface converters before it declined.
  (3) A converter that returns the sentinel hands over to the next one: the loop over
  the rest of its list, or what follows \<^verbatim>\<open>ConvertTo\<close>. (4) When every converter that
  applies to a non-nil source declines, the built-in rules decide.
\<close>

theorem C2_sentinel_and_errors:
  "Convert n E ce source targetType \<noteq> Some (Err ErrNoConversionAvailable) \<and>
   (TypeOf source \<noteq> Some targetType \<longrightarrow>
      (sourceConverters ce (TypeOf source) = pre @ c # post \<and>
       allDecline pre source targetType \<and> aborts c source targetType err
         \<longrightarrow> Convert (Suc n) E ce source targetType = Some (Err err)) \<and>
      (allDecline (sourceConverters ce (TypeOf source)) source targetType \<and>
       asserts E source ConverterTo \<and> aborts (ConvertTo_method E) source targetType err
         \<longrightarrow> Convert (Suc n) E ce source targetType = Some (Err err)) \<and>
      (allDecline (sourceConverters ce (TypeOf source)) source targetType \<and>
       selfDeclines E source targetType \<and>
       targetConverters ce (Some targetType) = pre @ c # post \<and>
       allDecline pre source targetType \<and> aborts c source targetType err
         \<longrightarrow> Convert (Suc n) E ce source targetType = Some (Err err)) \<and>
      (allDecline (sourceConverters ce (TypeOf source)) source targetType \<and>
       selfDeclines E source targetType \<and>
       allDecline (targetConverters ce (Some targetType)) source targetType \<and>
       interfaceConverters ce = ipre @ (itype, pre @ c # post) # ipost \<and>
       ifacesDecline E ipre source targetType \<and>
       Kind itype = Interface \<and> asserts E source itype \<and>
       allDecline pre source targetType \<and> aborts c source targetType err
         \<longrightarrow> Convert (Suc n) E ce source targetType = Some (Err err)) \<and>
      (TypeOf source \<noteq> None \<and> noCustom E ce source targetType
         \<longrightarrow> Convert (Suc n) E ce source targetType
              = builtin E (Convert n E ce) source targetType)) \<and>
   (declines c source targetType \<longrightarrow>
      tryConverters recur (c # cs) source targetType next
        = tryConverters recur cs source targetType next) \<and>
   (declines (ConvertTo_method E) source targetType \<longrightarrow>
      tryConverterTo E recur source targetType next = next) \<and>
   (declines c source targetType \<longrightarrow>
      tryImplemented E recur itype (c # cs) source targetType next
        = (case Implements E (TypeOf source) itype of
             None \<Rightarrow> Some Panic
           | Some b \<Rightarrow> tryImplemented E recur itype cs source targetType next))"
proof (intro conjI impI)
  show "Convert n E ce source targetType \<noteq> Some (Err ErrNoConversionAvailable)"
    using Convert_notSentinel[of n E ce source targetType] by (simp add: notSentinel_def)
next
  assume "TypeOf source \<noteq> Some targetType"
    and "sourceConverters ce (TypeOf source) = pre @ c # post \<and>
       allDecline pre source targetType \<and> aborts c source targetType err"
  then show "Convert (Suc n) E ce source targetType = Some (Err err)"
    by (simp add: Convert_abort_source)
next
  assume "TypeOf source \<noteq> Some targetType"
    and "allDecline (sourceConverters ce (TypeOf source)) source targetType \<and>
       asserts E source ConverterTo \<and> aborts (ConvertTo_method E) source targetType err"
  then show "Convert (Suc n) E ce source targetType = Some (Err err)"
    by (simp add: Convert_abort_self)
next
  assume "TypeOf source \<noteq> Some targetType"
    and "allDecline (sourceConverters ce (TypeOf source)) source targetType \<and>
       selfDeclines E source targetType \<and>
       targetConverters ce (Some targetType) = pre @ c # post \<and>
       allDecline pre source targetType \<and> aborts c source targetType err"
  then show "Convert (Suc n) E ce source targetType = Some (Err err)"
    by (simp add: Convert_abort_target)
next
  assume "TypeOf source \<noteq> Some targetType"
    and "allDecline (sourceConverters ce (TypeOf source)) source targetType \<and>
       selfDeclines E source targetType \<and>
       allDecline (targetConverters ce (Some targetType)) source targetType \<and>
       interfaceConverters ce = ipre @ (itype, pre @ c # post) # ipost \<and>
       ifacesDecline E ipre source targetType \<and>
       Kind itype = Interface \<and> asserts E source itype \<and>
       allDecline pre source targetType \<and> aborts c source targetType err"
  then show "Convert (Suc n) E ce source targetType = Some (Err err)"
    by (simp add: Convert_abort_interface)
next
  assume "TypeOf source \<noteq> Some targetType"
    and "TypeOf source \<noteq> None \<and> noCustom E ce source targetType"
  then show "Convert (Suc n) E ce source targetType
      = builtin E (Convert n E ce) source targetType"
    by (auto simp: Convert_noCustom)
next
  assume "declines c source targetType"
  then show "tryConverters recur (c # cs) source targetType next
      = tryConverters recur cs source targetType next"
    by (simp add: declines_def)
next
  assume "declines (ConvertTo_method E) source targetType"
  then show "tryConverterTo E recur source targetType next = next"
    by (simp add: declines_def tryConverterTo_def)
next
  assume "declines c source targetType"
  then show "tryImplemented E recur itype (c # cs) source targetType next
      = (case Implements E (TypeOf source) itype of
           None \<Rightarrow> Some Panic
         | Some b \<Rightarrow> tryImplemented E recur itype cs source targetType next)"
    by (simp add: declines_def split: option.splits bool.splits)
qed

text \<open>
  The claim at an engine whose source converter for \<^verbatim>\<open>string\<close> fails with an error of
  its own: \<^verbatim>\<open>Convert("1", int)\<close> returns that error, although the built-in rule would
  parse the string.
\<close>

theorem C2_sentinel_and_errors_witness:
  "TypeOf (VString (Basic String) ''1'') \<noteq> Some (Basic IntK) \<and>
   sourceConverters failingEngine (TypeOf (VString (Basic String) ''1''))
     = [] @ (\<lambda>source targetType. Err (OtherError ''boom'')) # [] \<and>
   allDecline [] (VString (Basic String) ''1'') (Basic IntK) \<and>
   aborts (\<lambda>source targetType. Err (OtherError ''boom'')) (VString (Basic String) ''1'')
     (Basic IntK) (OtherError ''boom'') \<and>
   Convert (Suc 0) noMethods failingEngine (VString (Basic String) ''1'') (Basic IntK)
     = Some (Err (OtherError ''boom'')) \<and>
   Convert (Suc 0) noMethods New (VString (Basic String) ''1'') (Basic IntK)
     = Some (Ok (VInt (Basic IntK) 1))"
proof -
  have h: "TypeOf (VString (Basic String) ''1'') \<noteq> Some (Basic IntK) \<and>
    sourceConverters failingEngine (TypeOf (VString (Basic String) ''1''))
      = [] @ (\<lambda>source targetType. Err (OtherError ''boom'')) # [] \<and>
    allDecline [] (VString (Basic String) ''1'') (Basic IntK) \<and>
    aborts (\<lambda>source targetType. Err (OtherError ''boom'')) (VString (Basic String) ''1'')
      (Basic IntK) (OtherError ''boom'')"
    by (simp add: failingEngine_def AddSourceConverter_def New_def allDecline_def aborts_def)
  have p: "Convert (Suc 0) noMethods New (VString (Basic String) ''1'') (Basic IntK)
     = Some (Ok (VInt (Basic IntK) 1))"
    by (simp add: eval_defs ParseInt_def ParseUint_def cutoff_def)
  from C2_sentinel_and_errors[where source = "VString (Basic String) ''1''"
      and targetType = "Basic IntK" and ce = failingEngine and pre = "[]" and post = "[]"
      and c = "\<lambda>source targetType. Err (OtherError ''boom'')" and err = "OtherError ''boom''"
      and n = 0 and E = noMethods] h p
  show ?thesis by blast
qed

section \<open>C5: slices\<close>

lemma callTypedD: "callTyped E recur \<Longrightarrow> recur x t = Some (Ok v) \<Longrightarrow> assignTo E v t = Some v"
  by (auto simp: callTyped_def okTyped_def intro: assignTo_typed)

lemma sliceLoop_Ok:
  assumes "callTyped E recur"
  shows "sliceLoop E recur xs t e T = Some (Ok r) \<longleftrightarrow>
    (\<exists>ys. r = VSlice t (T @ ys) \<and> list_all2 (\<lambda>x y. recur x e = Some (Ok y)) xs ys)"
proof (induction xs arbitrary: T)
  case Nil
  then show ?case by auto
next
  case (Cons x xs)
  show ?case
  proof (cases "recur x e")
    case None
    then show ?thesis by (auto simp: list_all2_Cons1)
  next
    case (Some ro)
    show ?thesis
    proof (cases ro)
      case (Ok item)
      with Some have a: "assignTo E item e = Some item"
        using callTypedD[OF assms] by simp
      show ?thesis
        using Some Ok a Cons.IH[of "T @ [item]"] by (auto simp: list_all2_Cons1)
    next
      case (Err err)
      with Some show ?thesis by (auto simp: list_all2_Cons1)
    next
      case Panic
      with Some show ?thesis by (auto simp: list_all2_Cons1)
    qed
  qed
qed

lemma sliceLoop_Err:
  assumes "callTyped E recur"
  shows "sliceLoop E recur xs t e T = Some (Err err) \<longleftrightarrow>
    (\<exists>i<length xs. recur (xs ! i) e = Some (Err err) \<and>
       (\<forall>j<i. \<exists>y. recur (xs ! j) e = Some (Ok y)))"
proof (induction xs arbitrary: T)
  case Nil
  then show ?case by simp
next
  case (Cons x xs)
  show ?case
  proof (cases "recur x e")
    case None
    then show ?thesis by (auto simp: Ex_less_Suc2 All_less_Suc2)
  next
    case (Some ro)
    show ?thesis
    proof (cases ro)
      case (Ok item)
      with Some have a: "assignTo E item e = Some item"
        using callTypedD[OF assms] by simp
      show ?thesis
        using Some Ok a Cons.IH[of "T @ [item]"] by (simp add: Ex_less_Suc2 All_less_Suc2)
    next
      case (Err err')
      with Some show ?thesis by (auto simp: Ex_less_Suc2 All_less_Suc2)
    next
      case Panic
      with Some show ?thesis by (auto simp: Ex_less_Suc2 All_less_Suc2)
    qed
  qed
qed

lemma builtin_slices:
  assumes "Kind st = Slice" and "Kind t = Slice" and "Elem t = Some e"
  shows "builtin E recur (VSlice st xs) t = sliceLoop E recur xs t e []"
  using assms
  by (simp add: builtin_def Let_def fromString_def containers_def convertSlice_def)

text \<open>
  Claim C5 says that for every source slice and every target slice type \<^verbatim>\<open>Convert\<close>
  builds the slice of the converted elements. A custom converter comes first: with a
  source converter for \<^verbatim>\<open>[]string\<close> that returns \<^verbatim>\<open>[]int{42}\<close>, \<^verbatim>\<open>Convert([]string{"1", "2"},
  []int)\<close> is \<^verbatim>\<open>[]int{42}\<close>, of length 1, although the elements convert to 1 and 2. And a
  source that has the target type already is returned as it is: with a source
  converter for \<^verbatim>\<open>int\<close> that returns \<^verbatim>\<open>"x"\<close>, \<^verbatim>\<open>Convert([]interface{}{1}, []interface{})\<close>
  keeps the element 1, which \<^verbatim>\<open>Convert\<close> to the element type would turn into \<^verbatim>\<open>"x"\<close>.
\<close>

theorem C5_counterexample:
  "Convert (Suc (Suc 0)) noMethods sliceEngine
      (VSlice (SliceOf (Basic String)) [VString (Basic String) ''1'', VString (Basic String) ''2''])
      (SliceOf (Basic IntK))
     = Some (Ok (VSlice (SliceOf (Basic IntK)) [VInt (Basic IntK) 42])) \<and>
   Convert (Suc 0) noMethods sliceEngine (VString (Basic String) ''1'') (Basic IntK)
     = Some (Ok (VInt (Basic IntK) 1)) \<and>
   Convert (Suc 0) noMethods sliceEngine (VString (Basic String) ''2'') (Basic IntK)
     = Some (Ok (VInt (Basic IntK) 2)) \<and>
   Convert (Suc (Suc (Suc 0))) noMethods intEngine
      (VSlice (SliceOf (InterfaceOf [])) [VInt (Basic IntK) 1]) (SliceOf (InterfaceOf []))
     = Some (Ok (VSlice (SliceOf (InterfaceOf [])) [VInt (Basic IntK) 1])) \<and>
   Convert (Suc (Suc 0)) noMethods intEngine (VInt (Basic IntK) 1) (InterfaceOf [])
     = Some (Ok (VString (Basic String) ''x''))"
proof -
  have s: "sourceConverters sliceEngine (Some (SliceOf (Basic String)))
      = [\<lambda>source targetType. Ok (VSlice (SliceOf (Basic IntK)) [VInt (Basic IntK) 42])]"
    "sourceConverters sliceEngine (Some (Basic String)) = []"
    "targetConverters sliceEngine = (\<lambda>t. [])" "interfaceConverters sliceEngine = []"
    by (simp_all add: sliceEngine_def AddSourceConverter_def New_def)
  have i: "sourceConverters intEngine (Some (Basic IntK))
      = [\<lambda>source targetType. Ok (VString (Basic String) ''x'')]"
    "sourceConverters intEngine (Some (Basic String)) = []"
    "targetConverters intEngine = (\<lambda>t. [])" "interfaceConverters intEngine = []"
    by (simp_all add: intEngine_def AddSourceConverter_def New_def)
  show ?thesis
    by (simp add: eval_defs s i ParseInt_def ParseUint_def cutoff_def)
qed

text \<open>
  C5 as amended. A source slice that has the target type is returned as it is. For a
  source slice of another type and a target slice type with element type \<open>e\<close>, when no
  custom strategy applies to the pair: \<^verbatim>\<open>Convert\<close> returns a value exactly when every
  element converts to \<open>e\<close>, and the value is the slice, of the target type, of the
  converted elements in their order (so of the same length); \<^verbatim>\<open>Convert\<close> returns an error
  exactly when some element fails with that error and all elements before it convert.
\<close>

theorem C5_slices:
  "Convert (Suc n) E ce (VSlice targetType xs) targetType = Some (Ok (VSlice targetType xs)) \<and>
   (sourceType \<noteq> targetType \<and> Kind sourceType = Slice \<and> Kind targetType = Slice \<and>
    Elem targetType = Some e \<and> noCustom E ce (VSlice sourceType xs) targetType \<longrightarrow>
      (Convert (Suc n) E ce (VSlice sourceType xs) targetType = Some (Ok r) \<longleftrightarrow>
         (\<exists>ys. r = VSlice targetType ys \<and> length ys = length xs \<and>
            (\<forall>i<length xs. Convert n E ce (xs ! i) e = Some (Ok (ys ! i))))) \<and>
      (Convert (Suc n) E ce (VSlice sourceType xs) targetType = Some (Err err) \<longleftrightarrow>
         (\<exists>i<length xs. Convert n E ce (xs ! i) e = Some (Err err) \<and>
            (\<forall>j<i. \<exists>y. Convert n E ce (xs ! j) e = Some (Ok y)))))"
proof (intro conjI impI)
  show "Convert (Suc n) E ce (VSlice targetType xs) targetType
      = Some (Ok (VSlice targetType xs))"
    by (simp add: Convert.simps(2) resolve_def)
next
  assume a: "sourceType \<noteq> targetType \<and> Kind sourceType = Slice \<and> Kind targetType = Slice \<and>
    Elem targetType = Some e \<and> noCustom E ce (VSlice sourceType xs) targetType"
  then have c: "Convert (Suc n) E ce (VSlice sourceType xs) targetType
      = sliceLoop E (Convert n E ce) xs targetType e []"
    by (simp add: Convert_noCustom builtin_slices)
  show "Convert (Suc n) E ce (VSlice sourceType xs) targetType = Some (Ok r) \<longleftrightarrow>
     (\<exists>ys. r = VSlice targetType ys \<and> length ys = length xs \<and>
        (\<forall>i<length xs. Convert n E ce (xs ! i) e = Some (Ok (ys ! i))))"
    unfolding c sliceLoop_Ok[OF Convert_callTyped]
    by (auto simp: list_all2_conv_all_nth)
  show "Convert (Suc n) E ce (VSlice sourceType xs) targetType = Some (Err err) \<longleftrightarrow>
     (\<exists>i<length xs. Convert n E ce (xs ! i) e = Some (Err err) \<and>
        (\<forall>j<i. \<exists>y. Convert n E ce (xs ! j) e = Some (Ok y)))"
    unfolding c by (rule sliceLoop_Err[OF Convert_callTyped])
qed

text \<open>The example of the specification: \<^verbatim>\<open>Convert([]string{"1", "2", "3"}, []int)\<close>.\<close>

theorem C5_slices_witness:
  "SliceOf (Basic String) \<noteq> SliceOf (Basic IntK) \<and> Kind (SliceOf (Basic String)) = Slice \<and>
   Kind (SliceOf (Basic IntK)) = Slice \<and> Elem (SliceOf (Basic IntK)) = Some (Basic IntK) \<and>
   noCustom noMethods New
     (VSlice (SliceOf (Basic String))
        [VString (Basic String) ''1'', VString (Basic String) ''2'', VString (Basic String) ''3''])
     (SliceOf (Basic IntK)) \<and>
   Convert (Suc (Suc 0)) noMethods New
     (VSlice (SliceOf (Basic String))
        [VString (Basic String) ''1'', VString (Basic String) ''2'', VString (Basic String) ''3''])
     (SliceOf (Basic IntK))
     = Some (Ok (VSlice (SliceOf (Basic IntK))
         [VInt (Basic IntK) 1, VInt (Basic IntK) 2, VInt (Basic IntK) 3]))"
proof -
  let ?xs = "[VString (Basic String) ''1'', VString (Basic String) ''2'',
    VString (Basic String) ''3'']"
  let ?ys = "[VInt (Basic IntK) 1, VInt (Basic IntK) 2, VInt (Basic IntK) 3]"
  have e: "\<forall>i<length ?xs. Convert (Suc 0) noMethods New (?xs ! i) (Basic IntK)
      = Some (Ok (?ys ! i))"
    by (simp add: All_less_Suc eval_defs ParseInt_def ParseUint_def cutoff_def)
  have h: "SliceOf (Basic String) \<noteq> SliceOf (Basic IntK) \<and>
    Kind (SliceOf (Basic String)) = Slice \<and> Kind (SliceOf (Basic IntK)) = Slice \<and>
    Elem (SliceOf (Basic IntK)) = Some (Basic IntK) \<and>
    noCustom noMethods New (VSlice (SliceOf (Basic String)) ?xs) (SliceOf (Basic IntK))"
    by (simp add: noCustom_New)
  have "\<exists>ys. VSlice (SliceOf (Basic IntK)) ?ys = VSlice (SliceOf (Basic IntK)) ys \<and>
      length ys = length ?xs \<and>
      (\<forall>i<length ?xs. Convert (Suc 0) noMethods New (?xs ! i) (Basic IntK) = Some (Ok (ys ! i)))"
    using e by (intro exI[of _ ?ys]) simp
  with C5_slices[where sourceType = "SliceOf (Basic String)" and targetType = "SliceOf (Basic IntK)"
      and e = "Basic IntK" and E = noMethods and ce = New and xs = ?xs and n = "Suc 0"
      and r = "VSlice (SliceOf (Basic IntK)) ?ys"] h
  show ?thesis by blast
qed

section \<open>C6: maps\<close>

lemma assignTo_Some_not_nil: "assignTo E v t = Some v \<Longrightarrow> v \<noteq> VNil"
  by (auto simp: assignTo_def)

lemma SetMapIndex_typed:
  "assignTo E key k = Some key \<Longrightarrow> assignTo E v e = Some v \<Longrightarrow>
   SetMapIndex E T k e key v = (if hashable key then Some (AList.update key v T) else None)"
  by (auto simp: SetMapIndex_def dest: assignTo_Some_not_nil)

lemma inserted_simps:
  "inserted [] T = T"
  "inserted (kv # kvs) T = inserted kvs (AList.update (fst kv) (snd kv) T)"
  by (simp_all add: inserted_def case_prod_beta)

lemma mapLoop_step:
  assumes "callTyped E recur"
  shows "mapLoop E recur (kv # kvs) t e k T =
     (case recur (snd kv) e of
        None \<Rightarrow> None
      | Some (Err err) \<Rightarrow> Some (Err err)
      | Some Panic \<Rightarrow> Some Panic
      | Some (Ok v) \<Rightarrow>
          (case recur (fst kv) k of
             None \<Rightarrow> None
           | Some (Err err) \<Rightarrow> Some (Err err)
           | Some Panic \<Rightarrow> Some Panic
           | Some (Ok key) \<Rightarrow>
               if hashable key then mapLoop E recur kvs t e k (AList.update key v T)
               else Some Panic))"
  by (cases kv)
     (auto split: option.splits result.splits
       simp: SetMapIndex_typed callTypedD[OF assms])

lemma ex_entryOk:
  "(\<exists>kv'. entryOk recur e k kv kv' \<and> Q kv') \<longleftrightarrow>
   (\<exists>v key. recur (snd kv) e = Some (Ok v) \<and> recur (fst kv) k = Some (Ok key) \<and>
      hashable key \<and> Q (key, v))"
  by (auto simp: entryOk_def)

lemma mapLoop_Ok:
  assumes "callTyped E recur"
  shows "mapLoop E recur kvs t e k T = Some (Ok r) \<longleftrightarrow>
    (\<exists>kvs'. r = VMap t (inserted kvs' T) \<and> list_all2 (entryOk recur e k) kvs kvs')"
proof (induction kvs arbitrary: T)
  case Nil
  then show ?case by (auto simp: inserted_simps)
next
  case (Cons kv kvs)
  have R: "(\<exists>kvs'. r = VMap t (inserted kvs' T) \<and> list_all2 (entryOk recur e k) (kv # kvs) kvs')
    \<longleftrightarrow> (\<exists>kv'. entryOk recur e k kv kv' \<and>
          (\<exists>kvs'. r = VMap t (inserted kvs' (AList.update (fst kv') (snd kv') T)) \<and>
             list_all2 (entryOk recur e k) kvs kvs'))"
    (is "?L \<longleftrightarrow> ?R")
  proof
    assume ?L
    then obtain kvs' where r: "r = VMap t (inserted kvs' T)"
      and l: "list_all2 (entryOk recur e k) (kv # kvs) kvs'" by blast
    from l obtain z zs where "kvs' = z # zs" "entryOk recur e k kv z"
      "list_all2 (entryOk recur e k) kvs zs"
      by (auto simp: list_all2_Cons1)
    with r have "entryOk recur e k kv z \<and>
        (\<exists>kvs'. r = VMap t (inserted kvs' (AList.update (fst z) (snd z) T)) \<and>
           list_all2 (entryOk recur e k) kvs kvs')"
      by (simp add: inserted_simps) blast
    then show ?R by blast
  next
    assume ?R
    then obtain kv' kvs' where "entryOk recur e k kv kv'"
      "r = VMap t (inserted kvs' (AList.update (fst kv') (snd kv') T))"
      "list_all2 (entryOk recur e k) kvs kvs'" by blast
    then have "r = VMap t (inserted (kv' # kvs') T) \<and>
        list_all2 (entryOk recur e k) (kv # kvs) (kv' # kvs')"
      by (simp add: inserted_simps)
    then show ?L by blast
  qed
  show ?case
    unfolding R ex_entryOk mapLoop_step[OF assms]
    by (auto simp: Cons.IH split: option.splits result.splits)
qed

lemma mapLoop_Err:
  assumes "callTyped E recur"
  shows "mapLoop E recur kvs t e k T = Some (Err err) \<longleftrightarrow>
    (\<exists>i<length kvs. entryErr recur e k (kvs ! i) err \<and>
       (\<forall>j<i. \<exists>kv'. entryOk recur e k (kvs ! j) kv'))"
proof (induction kvs arbitrary: T)
  case Nil
  then show ?case by simp
next
  case (Cons kv kvs)
  let ?R = "\<exists>i<length kvs. entryErr recur e k (kvs ! i) err \<and>
       (\<forall>j<i. \<exists>kv'. entryOk recur e k (kvs ! j) kv')"
  have S: "(\<exists>i<length (kv # kvs). entryErr recur e k ((kv # kvs) ! i) err \<and>
       (\<forall>j<i. \<exists>kv'. entryOk recur e k ((kv # kvs) ! j) kv'))
     \<longleftrightarrow> entryErr recur e k kv err \<or> ((\<exists>kv'. entryOk recur e k kv kv') \<and> ?R)"
    by (simp add: Ex_less_Suc2 All_less_Suc2) blast
  have H: "(\<exists>kv'. entryOk recur e k kv kv') \<longleftrightarrow>
      (\<exists>v key. recur (snd kv) e = Some (Ok v) \<and> recur (fst kv) k = Some (Ok key) \<and>
         hashable key)"
    using ex_entryOk[of recur e k kv "\<lambda>x. True"] by simp
  have I: "\<And>T. mapLoop E recur kvs t e k T = Some (Err err) \<longleftrightarrow> ?R"
    by (rule Cons.IH)
  show ?case
    unfolding S H mapLoop_step[OF assms]
    by (simp add: I entryErr_def split: option.splits result.splits)
qed

lemma map_of_inserted: "map_of (inserted kvs T) = map_of T ++ map_of (rev kvs)"
proof (induction kvs arbitrary: T)
  case Nil
  then show ?case by (simp add: inserted_simps)
next
  case (Cons kv kvs)
  show ?case
    by (cases kv) (simp add: inserted_simps Cons.IH update_conv' map_add_upd_left fun_eq_iff
        map_add_def split: option.splits)
qed

lemma distinct_inserted: "distinct (map fst T) \<Longrightarrow> distinct (map fst (inserted kvs T))"
  by (induction kvs arbitrary: T) (simp_all add: inserted_simps distinct_update)

lemma builtin_maps:
  assumes "Kind st = Map" and "Kind t = Map" and "Elem t = Some e" and "Key t = Some k"
  shows "builtin E recur (VMap st kvs) t = mapLoop E recur kvs t e k []"
  using assms
  by (simp add: builtin_def Let_def fromString_def containers_def convertMap_def)

text \<open>
  Claim C6 says that for every source map and every target map type \<^verbatim>\<open>Convert\<close> builds
  the map of the converted entries. As for slices, a custom converter comes first
  (with a source converter for \<^verbatim>\<open>map[string]string\<close> that returns an empty map,
  \<^verbatim>\<open>Convert(map[string]string{"1": "uno"}, map[int]string)\<close> is empty although the entry
  converts), and a source that has the target type already is returned as it is
  (with a source converter for \<^verbatim>\<open>int\<close> that returns \<^verbatim>\<open>"x"\<close>, the value 1 of a
  \<^verbatim>\<open>map[string]interface{}\<close> stays 1). Moreover a converted key that cannot be hashed
  makes \<^verbatim>\<open>SetMapIndex\<close> panic: with a source converter for \<^verbatim>\<open>string\<close> that returns a
  slice, \<^verbatim>\<open>Convert(map[string]string{"a": "b"}, map[interface{}]string)\<close> panics.
\<close>

theorem C6_counterexample:
  "Convert (Suc (Suc 0)) noMethods mapEngine
      (VMap (MapOf (Basic String) (Basic String))
         [(VString (Basic String) ''1'', VString (Basic String) ''uno'')])
      (MapOf (Basic IntK) (Basic String))
     = Some (Ok (VMap (MapOf (Basic IntK) (Basic String)) [])) \<and>
   Convert (Suc 0) noMethods mapEngine (VString (Basic String) ''uno'') (Basic String)
     = Some (Ok (VString (Basic String) ''uno'')) \<and>
   Convert (Suc 0) noMethods mapEngine (VString (Basic String) ''1'') (Basic IntK)
     = Some (Ok (VInt (Basic IntK) 1)) \<and>
   Convert (Suc (Suc (Suc 0))) noMethods intEngine
      (VMap (MapOf (Basic String) (InterfaceOf []))
         [(VString (Basic String) ''a'', VInt (Basic IntK) 1)])
      (MapOf (Basic String) (InterfaceOf []))
     = Some (Ok (VMap (MapOf (Basic String) (InterfaceOf []))
         [(VString (Basic String) ''a'', VInt (Basic IntK) 1)])) \<and>
   Convert (Suc (Suc 0)) noMethods intEngine (VInt (Basic IntK) 1) (InterfaceOf [])
     = Some (Ok (VString (Basic String) ''x'')) \<and>
   Convert (Suc (Suc (Suc 0))) noMethods keyEngine
      (VMap (MapOf (Basic String) (Basic String))
         [(VString (Basic String) ''a'', VString (Basic String) ''b'')])
      (MapOf (InterfaceOf []) (Basic String))
     = Some Panic"
proof -
  have m: "sourceConverters mapEngine (Some (MapOf (Basic String) (Basic String)))
      = [\<lambda>source targetType. Ok (VMap (MapOf (Basic IntK) (Basic String)) [])]"
    "sourceConverters mapEngine (Some (Basic String)) = []"
    "targetConverters mapEngine = (\<lambda>t. [])" "interfaceConverters mapEngine = []"
    by (simp_all add: mapEngine_def AddSourceConverter_def New_def)
  have i: "sourceConverters intEngine (Some (Basic IntK))
      = [\<lambda>source targetType. Ok (VString (Basic String) ''x'')]"
    "sourceConverters intEngine (Some (Basic String)) = []"
    "targetConverters intEngine = (\<lambda>t. [])" "interfaceConverters intEngine = []"
    by (simp_all add: intEngine_def AddSourceConverter_def New_def)
  have k: "sourceConverters keyEngine (Some (Basic String))
      = [\<lambda>source targetType. Ok (VSlice (SliceOf (Basic IntK)) [])]"
    "sourceConverters keyEngine (Some (MapOf (Basic String) (Basic String))) = []"
    "sourceConverters keyEngine (Some (SliceOf (Basic IntK))) = []"
    "targetConverters keyEngine = (\<lambda>t. [])" "interfaceConverters keyEngine = []"
    by (simp_all add: keyEngine_def AddSourceConverter_def New_def)
  show ?thesis
    by (simp add: eval_defs m i k ParseInt_def ParseUint_def cutoff_def convertMap_def
        SetMapIndex_def assignTo_def directlyAssignable_def)
qed

text \<open>
  C6 as amended. A source map that has the target type is returned as it is. For a
  source map of another type and a target map type with key type \<open>k\<close> and element type
  \<open>e\<close>, when no custom strategy applies to the pair: \<^verbatim>\<open>Convert\<close> returns a value exactly
  when every entry converts (its value to \<open>e\<close>, its key to \<open>k\<close>, to a key that can be
  hashed), and the value is the map, of the target type, that results from inserting
  the converted entries one after the other; \<^verbatim>\<open>Convert\<close> returns an error exactly when
  some entry fails with that error (its value, or else its key) and all entries before
  it convert. Inserting entries one after the other gives a map with each key once,
  in which a key has the value of the last entry with that key.
\<close>

theorem C6_maps:
  "Convert (Suc n) E ce (VMap targetType kvs) targetType = Some (Ok (VMap targetType kvs)) \<and>
   (sourceType \<noteq> targetType \<and> Kind sourceType = Map \<and> Kind targetType = Map \<and>
    Elem targetType = Some e \<and> Key targetType = Some k \<and>
    noCustom E ce (VMap sourceType kvs) targetType \<longrightarrow>
      (Convert (Suc n) E ce (VMap sourceType kvs) targetType = Some (Ok r) \<longleftrightarrow>
         (\<exists>kvs'. length kvs' = length kvs \<and>
            (\<forall>i<length kvs. entryOk (Convert n E ce) e k (kvs ! i) (kvs' ! i)) \<and>
            r = VMap targetType (inserted kvs' []))) \<and>
      (Convert (Suc n) E ce (VMap sourceType kvs) targetType = Some (Err err) \<longleftrightarrow>
         (\<exists>i<length kvs. entryErr (Convert n E ce) e k (kvs ! i) err \<and>
            (\<forall>j<i. \<exists>kv'. entryOk (Convert n E ce) e k (kvs ! j) kv')))) \<and>
   map_of (inserted new []) = map_of (rev new) \<and>
   distinct (map fst (inserted new [])) \<and>
   (key \<notin> fst ` set post \<longrightarrow> map_of (inserted (pre @ (key, v) # post) []) key = Some v)"
proof (intro conjI impI)
  show "Convert (Suc n) E ce (VMap targetType kvs) targetType
      = Some (Ok (VMap targetType kvs))"
    by (simp add: Convert.simps(2) resolve_def)
next
  assume a: "sourceType \<noteq> targetType \<and> Kind sourceType = Map \<and> Kind targetType = Map \<and>
    Elem targetType = Some e \<and> Key targetType = Some k \<and>
    noCustom E ce (VMap sourceType kvs) targetType"
  then have c: "Convert (Suc n) E ce (VMap sourceType kvs) targetType
      = mapLoop E (Convert n E ce) kvs targetType e k []"
    by (simp add: Convert_noCustom builtin_maps)
  show "Convert (Suc n) E ce (VMap sourceType kvs) targetType = Some (Ok r) \<longleftrightarrow>
     (\<exists>kvs'. length kvs' = length kvs \<and>
        (\<forall>i<length kvs. entryOk (Convert n E ce) e k (kvs ! i) (kvs' ! i)) \<and>
        r = VMap targetType (inserted kvs' []))"
    unfolding c mapLoop_Ok[OF Convert_callTyped]
    by (auto simp: list_all2_conv_all_nth)
  show "Convert (Suc n) E ce (VMap sourceType kvs) targetType = Some (Err err) \<longleftrightarrow>
     (\<exists>i<length kvs. entryErr (Convert n E ce) e k (kvs ! i) err \<and>
        (\<forall>j<i. \<exists>kv'. entryOk (Convert n E ce) e k (kvs ! j) kv'))"
    unfolding c by (rule mapLoop_Err[OF Convert_callTyped])
next
  show "map_of (inserted new []) = map_of (rev new)"
    by (simp add: map_of_inserted)
next
  show "distinct (map fst (inserted new []))"
    by (simp add: distinct_inserted)
next
  assume "key \<notin> fst ` set post"
  then have "map_of (rev post) key = None"
    by (simp add: map_of_eq_None_iff)
  then show "map_of (inserted (pre @ (key, v) # post) []) key = Some v"
    by (simp add: map_of_inserted map_add_def)
qed

text \<open>
  The example of the specification:
  \<^verbatim>\<open>Convert(map[string]string{"1": "uno", "2": "dos"}, map[int]string)\<close>.
\<close>

theorem C6_maps_witness:
  "MapOf (Basic String) (Basic String) \<noteq> MapOf (Basic IntK) (Basic String) \<and>
   Kind (MapOf (Basic String) (Basic String)) = Map \<and>
   Kind (MapOf (Basic IntK) (Basic String)) = Map \<and>
   Elem (MapOf (Basic IntK) (Basic String)) = Some (Basic String) \<and>
   Key (MapOf (Basic IntK) (Basic String)) = Some (Basic IntK) \<and>
   noCustom noMethods New
     (VMap (MapOf (Basic String) (Basic String))
        [(VString (Basic String) ''1'', VString (Basic String) ''uno''),
         (VString (Basic String) ''2'', VString (Basic String) ''dos'')])
     (MapOf (Basic IntK) (Basic String)) \<and>
   Convert (Suc (Suc 0)) noMethods New
     (VMap (MapOf (Basic String) (Basic String))
        [(VString (Basic String) ''1'', VString (Basic String) ''uno''),
         (VString (Basic String) ''2'', VString (Basic String) ''dos'')])
     (MapOf (Basic IntK) (Basic String))
     = Some (Ok (VMap (MapOf (Basic IntK) (Basic String))
         [(VInt (Basic IntK) 1, VString (Basic String) ''uno''),
          (VInt (Basic IntK) 2, VString (Basic String) ''dos'')]))"
proof -
  let ?kvs = "[(VString (Basic String) ''1'', VString (Basic String) ''uno''),
    (VString (Basic String) ''2'', VString (Basic String) ''dos'')]"
  let ?new = "[(VInt (Basic IntK) 1, VString (Basic String) ''uno''),
    (VInt (Basic IntK) 2, VString (Basic String) ''dos'')]"
  let ?t = "MapOf (Basic IntK) (Basic String)"
  have e: "\<forall>i<length ?kvs. entryOk (Convert (Suc 0) noMethods New) (Basic String) (Basic IntK)
      (?kvs ! i) (?new ! i)"
    by (simp add: All_less_Suc entryOk_def eval_defs ParseInt_def ParseUint_def cutoff_def)
  have n: "VMap ?t ?new = VMap ?t (inserted ?new [])"
    by (simp add: inserted_def)
  have h: "MapOf (Basic String) (Basic String) \<noteq> ?t \<and>
    Kind (MapOf (Basic String) (Basic String)) = Map \<and> Kind ?t = Map \<and>
    Elem ?t = Some (Basic String) \<and> Key ?t = Some (Basic IntK) \<and>
    noCustom noMethods New (VMap (MapOf (Basic String) (Basic String)) ?kvs) ?t"
    by (simp add: noCustom_New)
  have "\<exists>kvs'. length kvs' = length ?kvs \<and>
      (\<forall>i<length ?kvs. entryOk (Convert (Suc 0) noMethods New) (Basic String) (Basic IntK)
         (?kvs ! i) (kvs' ! i)) \<and>
      VMap ?t ?new = VMap ?t (inserted kvs' [])"
    using e n by (intro exI[of _ ?new]) simp
  with C6_maps[where sourceType = "MapOf (Basic String) (Basic String)" and targetType = ?t
      and e = "Basic String" and k = "Basic IntK" and E = noMethods and ce = New
      and kvs = ?kvs and n = "Suc 0" and r = "VMap ?t ?new"] h
  show ?thesis by blast
qed

section \<open>C9: without custom converters \<^verbatim>\<open>Convert\<close> returns or panics\<close>



















section \<open>Printing a number and parsing it again\<close>

declare formatBits.simps [simp del]

lemma digit_char: "d < 10 \<Longrightarrow> (of_char (char_of (48 + d :: nat)) :: nat) = 48 + d"
  by simp

lemma cutoff_bound: "u < 2 ^ 64 \<Longrightarrow> u div 10 < cutoff"
  by (simp add: cutoff_def)

lemma parseDigits_digit:
  assumes "d < 10" and "n * 10 + d \<le> maxVal" and "maxVal < 2 ^ 64"
  shows "parseDigits maxVal n (char_of (48 + d) # cs) = parseDigits maxVal (n * 10 + d) cs"
proof -
  have n: "n < cutoff" using assms(2,3) by (simp add: cutoff_def)
  have a: "(n * 10) mod 2 ^ 64 = n * 10" using assms(2,3) by simp
  have b: "(n * 10 + d) mod 2 ^ 64 = n * 10 + d" using assms(2,3) by simp
  show ?thesis
    using assms n by (simp add: digit_char a b Let_def)
qed

lemma parseDigits_formatBits:
  "u \<le> maxVal \<Longrightarrow> maxVal < 2 ^ 64 \<Longrightarrow>
   parseDigits maxVal 0 (formatBits u a) = parseDigits maxVal u a"
proof (induction u a rule: formatBits.induct)
  case (1 u a)
  show ?case
  proof (cases "u < 10")
    case True
    with "1.prems" parseDigits_digit[of u 0 maxVal a] show ?thesis
      by (simp add: formatBits.simps[of u])
  next
    case False
    have "parseDigits maxVal 0 (formatBits u a)
        = parseDigits maxVal 0 (formatBits (u div 10) (char_of (48 + u mod 10) # a))"
      using False by (simp add: formatBits.simps[of u])
    also have "\<dots> = parseDigits maxVal (u div 10) (char_of (48 + u mod 10) # a)"
      using False "1.prems" by (intro "1.IH") auto
    also have "\<dots> = parseDigits maxVal (u div 10 * 10 + u mod 10) a"
      using "1.prems" by (intro parseDigits_digit) auto
    finally show ?thesis by simp
  qed
qed

lemma formatBits_head:
  "\<exists>c cs. formatBits u a = c # cs \<and> 48 \<le> (of_char c :: nat) \<and> (of_char c :: nat) \<le> 57"
proof (induction u a rule: formatBits.induct)
  case (1 u a)
  show ?case
  proof (cases "u < 10")
    case True
    then show ?thesis by (simp add: formatBits.simps[of u])
  next
    case False
    with "1.IH" show ?thesis by (simp add: formatBits.simps[of u])
  qed
qed

lemma ParseUint_FormatUint:
  assumes "u < 2 ^ w" and "w \<le> 64"
  shows "ParseUint (FormatUint u) w = (u, None)"
proof -
  have m: "(2::nat) ^ w - 1 < 2 ^ 64"
    using power_increasing[of w 64 "2::nat"] assms(2) by simp
  obtain c cs where "formatBits u [] = c # cs" using formatBits_head by blast
  then have ne: "FormatUint u \<noteq> []" by (simp add: FormatUint_def)
  have "parseDigits (2 ^ w - 1) 0 (formatBits u []) = Inr u"
    using assms(1) m by (simp add: parseDigits_formatBits)
  with ne show ?thesis by (simp add: ParseUint_def FormatUint_def)
qed

lemma ParseInt_FormatInt:
  assumes "- (2 ^ (w - 1)) \<le> i" and "i < 2 ^ (w - 1)" and "0 < w" and "w \<le> 64"
  shows "ParseInt (FormatInt i) w = (i, None)"
proof -
  have p: "(2::nat) ^ w = 2 * 2 ^ (w - 1)"
    using assms(3) by (cases w) auto
  have z: "(0::nat) < 2 ^ (w - 1)" by simp
  show ?thesis
  proof (cases "i < 0")
    case True
    let ?u = "nat (- i)"
    have u: "?u \<le> 2 ^ (w - 1)" using assms(1) True
      by (simp add: nat_le_iff)
    then have "?u < 2 ^ w" using p z by linarith
    then have "ParseUint (FormatUint ?u) w = (?u, None)"
      using assms(4) by (rule ParseUint_FormatUint)
    then show ?thesis
      using True u by (simp add: ParseInt_def FormatInt_def FormatUint_def Let_def)
  next
    case False
    let ?u = "nat i"
    obtain c cs where h: "formatBits ?u [] = c # cs" "48 \<le> (of_char c :: nat)"
      using formatBits_head by blast
    then have s: "c \<noteq> CHR ''+''" "c \<noteq> CHR ''-''" by auto
    have u: "?u < 2 ^ (w - 1)" using assms(2) False
      by (simp add: nat_less_iff)
    then have "?u < 2 ^ w" using p z by linarith
    then have "ParseUint (FormatUint ?u) w = (?u, None)"
      using assms(4) by (rule ParseUint_FormatUint)
    then show ?thesis
      using False u h(1) s
      by (simp add: ParseInt_def FormatInt_def FormatUint_def Let_def)
  qed
qed

lemma ParseBool_FormatBool: "ParseBool (FormatBool b) = (b, None)"
  by (simp add: ParseBool_def FormatBool_def)

lemma signed_uint64:
  assumes "- (2 ^ (w - 1)) \<le> i" and "i < 2 ^ (w - 1)" and "0 < w" and "w \<le> 64"
  shows "signed w (uint64 i) = i"
proof -
  have p: "(2::int) ^ w = 2 * 2 ^ (w - 1)"
    using assms(3) by (cases w) auto
  have m: "int (uint64 i mod 2 ^ w) = i mod 2 ^ w"
    using uint64_mod[OF assms(4), of i] by simp
  show ?thesis
  proof (cases "i < 0")
    case True
    have z: "(0::int) < 2 ^ (w - 1)" by simp
    have "(i + 2 ^ w) mod 2 ^ w = i + 2 ^ w"
      using True assms(1) p z by (intro mod_pos_pos_trivial) linarith+
    then have "i mod 2 ^ w = i + 2 ^ w"
      by simp
    with m True assms(1) p show ?thesis
      by (simp add: signed_def Let_def) (simp add: nat_less_iff uint64_mod[OF assms(4)])
  next
    case False
    then have "i mod 2 ^ w = i" using assms(2) p by simp
    with m False assms(2) show ?thesis
      by (simp add: signed_def Let_def) (simp add: nat_less_iff uint64_mod[OF assms(4)])
  qed
qed

section \<open>C7: to a string and back\<close>

lemma kind2Exact_string:
  "kind2Exact E (VString (Basic String) s) (Basic String) = Ok (VString (Basic String) s)"
  by (simp add: kind2Exact_def Value_Convert_def convertOp_def kindOp_def isInt_def
      isUint_def isFloat_def haveIdenticalUnderlyingType_def applyOp_def)

lemma kind2Exact_bool:
  "Kind T = Bool \<Longrightarrow> kind2Exact E (VBool (Basic Bool) b) T = Ok (VBool T b)"
  by (simp add: kind2Exact_def Value_Convert_def convertOp_def kindOp_def isInt_def
      isUint_def isFloat_def haveIdenticalUnderlyingType_def compositeKind_def applyOp_def)

lemma kind2Exact_int:
  assumes "fits (VInt T i)"
  shows "kind2Exact E (VInt (Basic Int64) i) T = Ok (VInt T i)"
proof -
  from assms have k: "isInt (Kind T)" and r: "- (2 ^ (bitSize (Kind T) - 1)) \<le> i"
    "i < 2 ^ (bitSize (Kind T) - 1)"
    by (simp_all add: fits_def)
  have w: "0 < bitSize (Kind T)" by (cases "Kind T") auto
  have "kindOp T (Basic Int64) = Some cvtInt"
    using k by (simp add: kindOp_def isInt_def)
  then show ?thesis
    using k isInt_kind[OF k] signed_uint64[OF r w bitSize_le]
    by (simp add: kind2Exact_def Value_Convert_def convertOp_def applyOp_def makeInt_def)
qed

lemma kind2Exact_uint:
  assumes "fits (VUint T u)"
  shows "kind2Exact E (VUint (Basic Uint64) u) T = Ok (VUint T u)"
proof -
  from assms have k: "isUint (Kind T)" and r: "u < 2 ^ bitSize (Kind T)"
    by (simp_all add: fits_def)
  have "kindOp T (Basic Uint64) = Some cvtUint"
    using k by (simp add: kindOp_def isInt_def isUint_def)
  then show ?thesis
    using k r
    by (simp add: kind2Exact_def Value_Convert_def convertOp_def applyOp_def makeInt_def)
qed

lemma isFloat_kind:
  "isFloat k \<Longrightarrow> \<not> isInt k \<and> \<not> isUint k \<and> k \<noteq> String \<and> k \<noteq> Slice \<and> k \<noteq> Map \<and> k \<noteq> Bool
     \<and> k \<noteq> Interface"
  by (auto simp: isInt_def isUint_def isFloat_def)

lemma Float64_kind: "\<not> isInt Float64" "\<not> isUint Float64" "isFloat Float64"
  by (simp_all add: isInt_def isUint_def isFloat_def)

lemma kind2Exact_float:
  assumes "isFloat (Kind T)"
  shows "kind2Exact E (VFloat (Basic Float64) g) T
      = Ok (VFloat T (if Kind T = Float32 then float32_of E g else g))"
proof -
  have "kindOp T (Basic Float64) = Some cvtFloat"
    using assms isFloat_kind[OF assms] by (simp add: kindOp_def Float64_kind)
  then show ?thesis
    by (simp add: kind2Exact_def Value_Convert_def convertOp_def applyOp_def makeFloat_def)
qed

lemma toString_numeric:
  assumes "TypeOf v = Some T" and "fits v" and "parsable T" and "\<not> asserts E v Stringer"
    and "representable E v"
  shows "\<exists>s. toString E v (Basic String) k = Some (Ok (VString (Basic String) s)) \<and>
     (\<forall>k'. fromString E (VString (Basic String) s) T k' = Some (Ok v))"
proof (cases v)
  case (VBool t b)
  with assms show ?thesis
    by (simp add: toString_def fromString_def fits_def kind2Exact_string kind2Exact_bool
        ParseBool_FormatBool representable_def)
next
  case (VInt t i)
  with assms(1,2) have k: "isInt (Kind T)" "t = T" by (simp_all add: fits_def)
  have w: "0 < bitSize (Kind T)" by (cases "Kind T") auto
  from assms(2) VInt k have "ParseInt (FormatInt i) (bitSize (Kind T)) = (i, None)"
    by (intro ParseInt_FormatInt w bitSize_le) (simp_all add: fits_def)
  with assms VInt k isInt_kind[OF k(1)] show ?thesis
    by (simp add: toString_def fromString_def kind2Exact_string kind2Exact_int
        representable_def)
next
  case (VUint t u)
  with assms(1,2) have k: "isUint (Kind T)" "t = T" by (simp_all add: fits_def)
  from assms(2) VUint k have "ParseUint (FormatUint u) (bitSize (Kind T)) = (u, None)"
    by (intro ParseUint_FormatUint bitSize_le) (simp_all add: fits_def)
  with assms VUint k isUint_kind[OF k(1)] show ?thesis
    by (simp add: toString_def fromString_def kind2Exact_string kind2Exact_uint
        representable_def)
next
  case (VFloat t f)
  with assms(1,2) have k: "isFloat (Kind T)" "t = T" by (simp_all add: fits_def)
  with assms VFloat isFloat_kind[OF k(1)] show ?thesis
    by (auto simp: toString_def fromString_def kind2Exact_string kind2Exact_float
        representable_def split: prod.splits option.splits)
qed (use assms in \<open>auto simp: fits_def parsable_def isInt_def isUint_def isFloat_def\<close>)

text \<open>
  Claim C7 says that every value of a boolean, integer or floating-point type comes
  back from \<^verbatim>\<open>Convert\<close> to \<^verbatim>\<open>string\<close> and \<^verbatim>\<open>Convert\<close> back to its type, on an engine without
  custom converters for these types. The rule for string targets asks first whether
  the source is a \<^verbatim>\<open>fmt.Stringer\<close> (line 176): a value of a defined integer type with a
  \<^verbatim>\<open>String\<close> method is printed by that method, and what it prints need not parse.
  With \<^verbatim>\<open>type Level int\<close> whose \<^verbatim>\<open>String\<close> method returns \<^verbatim>\<open>"high"\<close>, \<^verbatim>\<open>Level(3)\<close> becomes
  \<^verbatim>\<open>"high"\<close>, and \<^verbatim>\<open>Convert("high", Level)\<close> fails in \<^verbatim>\<open>ParseInt\<close>.
\<close>

theorem C7_counterexample:
  "fits (VInt Level 3) \<and>
   Convert (Suc 0) levelProgram New (VInt Level 3) (Basic String)
     = Some (Ok (VString (Basic String) ''high'')) \<and>
   Convert (Suc 0) levelProgram New (VString (Basic String) ''high'') Level
     = Some (Err (NumError ''ParseInt'' ''high'' ErrSyntax))"
  by (simp add: eval_defs levelProgram_def Level_def fits_def ParseInt_def ParseUint_def)

text \<open>
  C7 as amended: for every value \<open>v\<close> of a type \<open>T\<close> of boolean, signed-integer,
  unsigned-integer or floating-point kind that does not implement \<^verbatim>\<open>fmt.Stringer\<close>,
  when no custom strategy applies to converting \<open>v\<close> to \<^verbatim>\<open>string\<close> nor to converting a
  string to \<open>T\<close>, and \<open>v\<close> is representable (a floating-point value is parsed back from
  the six significant digits that are printed; any boolean or integer value is),
  \<^verbatim>\<open>Convert\<close> of \<open>v\<close> to \<^verbatim>\<open>string\<close> returns a string, and \<^verbatim>\<open>Convert\<close> of that string to \<open>T\<close>
  returns \<open>v\<close>.
\<close>

theorem C7_round_trip:
  assumes "TypeOf v = Some T" and "fits v" and "parsable T"
    and "\<not> asserts E v Stringer" and "representable E v"
    and "noCustom E ce v (Basic String)"
    and "\<forall>s. noCustom E ce (VString (Basic String) s) T"
  shows "\<exists>s. Convert (Suc n) E ce v (Basic String) = Some (Ok (VString (Basic String) s)) \<and>
     Convert (Suc m) E ce (VString (Basic String) s) T = Some (Ok v)"
proof -
  from assms(3) have k: "Kind T \<noteq> String"
    by (auto simp: parsable_def isInt_def isUint_def isFloat_def)
  then have ne: "T \<noteq> Basic String" "Basic String \<noteq> T" by auto
  let ?k = "fromString E v (Basic String) (containers E (Convert n E ce) v (Basic String))"
  have one: "Convert (Suc n) E ce v (Basic String) = toString E v (Basic String) ?k"
    using Convert_noCustom[OF assms(6,1) ne(1)] by (simp add: builtin_def Let_def)
  have two: "Convert (Suc m) E ce (VString (Basic String) s) T
      = fromString E (VString (Basic String) s) T
          (containers E (Convert m E ce) (VString (Basic String) s) T)" for s
    using Convert_noCustom[of E ce "VString (Basic String) s" T "Basic String" m] assms(7) ne(2) k
    by (simp add: builtin_def Let_def)
  from toString_numeric[OF assms(1-5), of ?k]
  obtain s where s: "toString E v (Basic String) ?k = Some (Ok (VString (Basic String) s))"
    and b: "\<And>k'. fromString E (VString (Basic String) s) T k' = Some (Ok v)"
    by blast
  show ?thesis
    using one two s b by auto
qed

text \<open>The example of the specification: \<^verbatim>\<open>int32(3)\<close> to \<^verbatim>\<open>"3"\<close> and back.\<close>

theorem C7_round_trip_witness:
  "TypeOf (VInt (Basic Int32) 3) = Some (Basic Int32) \<and> fits (VInt (Basic Int32) 3) \<and>
   parsable (Basic Int32) \<and> \<not> asserts noMethods (VInt (Basic Int32) 3) Stringer \<and>
   representable noMethods (VInt (Basic Int32) 3) \<and>
   noCustom noMethods New (VInt (Basic Int32) 3) (Basic String) \<and>
   (\<forall>s. noCustom noMethods New (VString (Basic String) s) (Basic Int32)) \<and>
   Convert (Suc 0) noMethods New (VInt (Basic Int32) 3) (Basic String)
     = Some (Ok (VString (Basic String) ''3'')) \<and>
   Convert (Suc 0) noMethods New (VString (Basic String) ''3'') (Basic Int32)
     = Some (Ok (VInt (Basic Int32) 3))"
proof -
  have h: "TypeOf (VInt (Basic Int32) 3) = Some (Basic Int32)" "fits (VInt (Basic Int32) 3)"
    "parsable (Basic Int32)" "\<not> asserts noMethods (VInt (Basic Int32) 3) Stringer"
    "representable noMethods (VInt (Basic Int32) 3)"
    by (simp_all add: fits_def parsable_def isInt_def representable_def asserts_def
        implements_def Stringer_def noMethods_def)
  have c: "noCustom noMethods New (VInt (Basic Int32) 3) (Basic String)"
    "\<forall>s. noCustom noMethods New (VString (Basic String) s) (Basic Int32)"
    by (simp_all add: noCustom_New)
  have one: "Convert (Suc 0) noMethods New (VInt (Basic Int32) 3) (Basic String)
      = Some (Ok (VString (Basic String) ''3''))"
    by (simp add: eval_defs FormatInt_def formatBits.simps char_of_eq_iff)
  from C7_round_trip[OF h c, of 0 0] one
  have "Convert (Suc 0) noMethods New (VString (Basic String) ''3'') (Basic Int32)
      = Some (Ok (VInt (Basic Int32) 3))"
    by auto
  with h c one show ?thesis by simp
qed

end
